theory Spec2Isabelle
  imports Complex_Main
begin

section \<open>Conventions of the embedding\<close>

text \<open>
  The Python sources \<open>audio_analyzer.py\<close>, \<open>classifier.py\<close> and \<open>app.py\<close> are
  embedded as HOL functions. NumPy arrays of floats are lists of reals: arithmetic is exact,
  so rounding and overflow of IEEE doubles are outside the model. Where NumPy itself yields a
  non-finite value from finite input (the mean of an empty array is NaN) the value is kept
  explicit in the type \<open>npfloat\<close>. The kurtosis statement alone is embedded a second
  time (\<open>fakeprint_kurtosis_ieee\<close>) with the range of the doubles and their non-finite
  values, since a property of it is about non-finite results. Every \<open>raise\<close> of the Python code is a value \<open>Inl e\<close> of
  the result type \<open>error + 'a\<close>. Calls into external libraries that cannot be computed from
  the sources (the spline of SciPy, the short-time Fourier transform, unpickling, the audio
  decoder) are parameters of the functions that use them; the conditions under which their
  entry points raise are part of the model.
\<close>

datatype error =
    IndexError | ValueError | FileNotFoundError | IsADirectoryError | PermissionError
  | UnpicklingError | OverflowError

section \<open>audio\_analyzer.py\<close>

subsection \<open>The lower hull\<close>

text \<open>
  \<open>np.argmin\<close> returns the index of the first occurrence of the minimum and raises
  \<open>ValueError\<close> on an empty array.
\<close>

definition first_min_index :: "real list \<Rightarrow> nat" where
  "first_min_index xs = length (takeWhile (\<lambda>v. v \<noteq> Min (set xs)) xs)"

definition np_argmin :: "real list \<Rightarrow> error + nat" where
  "np_argmin xs = (if xs = [] then Inl ValueError else Inr (first_min_index xs))"

text \<open>
  The loop \<open>for i in range(len(x) - area + 1)\<close> of \<open>lower_hull\<close> over the list of its
  indices, with the two accumulators \<open>idx\<close> and \<open>hull\<close> (the second is called \<open>hullv\<close>
  here). The slice \<open>x[i:i+area]\<close> is \<open>take area (drop i x)\<close>.
\<close>

fun hull_loop :: "real list \<Rightarrow> nat \<Rightarrow> nat list \<Rightarrow> nat list \<times> real list
    \<Rightarrow> error + (nat list \<times> real list)" where
  "hull_loop x area [] acc = Inr acc"
| "hull_loop x area (i # rest) (idx, hullv) =
     (let patch = take area (drop i x) in
      case np_argmin patch of
        Inl e \<Rightarrow> Inl e
      | Inr rel_idx \<Rightarrow>
          (let abs_idx = rel_idx + i in
           if abs_idx \<notin> set idx
           then hull_loop x area rest (idx @ [abs_idx], hullv @ [patch ! rel_idx])
           else hull_loop x area rest (idx, hullv)))"

text \<open>
  \<open>lower_hull(x, area)\<close>. The range \<open>range(len(x) - area + 1)\<close> is empty when the curve
  is shorter than the window (truncating subtraction on \<open>nat\<close> gives the same empty range);
  \<open>idx\<close> is then empty and \<open>idx[0]\<close> raises \<open>IndexError\<close>. When \<open>idx\<close> is not empty
  the curve is not empty either, so \<open>x[0]\<close>, \<open>x[-1]\<close> and \<open>len(x) - 1\<close> are in range.
\<close>

definition lower_hull :: "real list \<Rightarrow> nat \<Rightarrow> error + (nat list \<times> real list)" where
  "lower_hull x area =
     (case hull_loop x area [0 ..< length x + 1 - area] ([], []) of
        Inl e \<Rightarrow> Inl e
      | Inr (idx, hullv) \<Rightarrow>
          if idx = [] then Inl IndexError
          else
            (let (idx1, hull1) =
                   (if hd idx \<noteq> 0 then (0 # idx, x ! 0 # hullv) else (idx, hullv));
                 (idx2, hull2) =
                   (if last idx1 \<noteq> length x - 1
                    then (idx1 @ [length x - 1], hull1 @ [last x])
                    else (idx1, hull1))
             in Inr (idx2, hull2)))"

text \<open>
  The absolute index that the window starting at \<open>i\<close> contributes: \<open>abs_idx\<close> in the
  loop body. It is used to state the loop invariant.
\<close>

definition win_min :: "real list \<Rightarrow> nat \<Rightarrow> nat \<Rightarrow> nat" where
  "win_min x area i = first_min_index (take area (drop i x)) + i"

subsection \<open>Normalisation, residual profile and fakeprint\<close>

text \<open>\<open>np.clip(v, a_min, a_max)\<close> on one element.\<close>

definition np_clip :: "real \<Rightarrow> real \<Rightarrow> real \<Rightarrow> real" where
  "np_clip v a_min a_max = min (max v a_min) a_max"

text \<open>
  \<open>max_normalize(x, max_db)\<close>: clip to \<open>[0, max_db]\<close> and divide by \<open>1e-6 + np.max(x)\<close>.
  \<open>np.max\<close> raises \<open>ValueError\<close> on an empty array.
\<close>

definition max_normalize :: "real list \<Rightarrow> real \<Rightarrow> error + real list" where
  "max_normalize x max_db =
     (let x' = map (\<lambda>v. np_clip v 0 max_db) x in
      if x' = [] then Inl ValueError
      else Inr (map (\<lambda>v. v / (1 / 1000000 + Max (set x'))) x'))"

text \<open>
  \<open>scipy.interpolate.interp1d(xs, ys, kind="quadratic", fill_value="extrapolate")\<close>. The
  constructor raises \<open>ValueError\<close> when \<open>xs\<close> and \<open>ys\<close> differ in length, when there
  are fewer than \<open>order + 1 = 3\<close> points, and when \<open>xs\<close> has a duplicate; otherwise it
  returns the interpolant, which is then applied to every frequency of the band. The values
  of the quadratic spline itself are external: they are the parameter \<open>spline\<close>.
\<close>

type_synonym spline = "real list \<Rightarrow> real list \<Rightarrow> real \<Rightarrow> real"

definition interp1d :: "spline \<Rightarrow> real list \<Rightarrow> real list \<Rightarrow> error + (real \<Rightarrow> real)" where
  "interp1d spline xs ys =
     (if length xs \<noteq> length ys \<or> length xs < 3 \<or> \<not> distinct xs then Inl ValueError
      else Inr (spline xs ys))"

text \<open>\<open>np.where((fmin < freqs) & (freqs < fmax))[0]\<close>.\<close>

definition band_idx :: "real \<Rightarrow> real \<Rightarrow> real list \<Rightarrow> nat list" where
  "band_idx fmin fmax freqs =
     filter (\<lambda>i. fmin < freqs ! i \<and> freqs ! i < fmax) [0 ..< length freqs]"

text \<open>
  \<open>curve_profile(freqs, curve, min_db)\<close> with the window \<open>area=10\<close> that the source
  passes. Indexing \<open>curve[cutoff_idx]\<close> raises \<open>IndexError\<close> when an index is out of range.
\<close>

definition curve_profile ::
  "spline \<Rightarrow> real \<Rightarrow> real \<Rightarrow> real list \<Rightarrow> real list \<Rightarrow> real
     \<Rightarrow> error + (real list \<times> real list)" where
  "curve_profile spline fmin fmax freqs curve min_db =
     (let cutoff_idx = band_idx fmin fmax freqs;
          freqs_cut = map ((!) freqs) cutoff_idx
      in if \<exists>i \<in> set cutoff_idx. length curve \<le> i then Inl IndexError
         else
           (let curve_cut = map ((!) curve) cutoff_idx in
            case lower_hull curve_cut 10 of
              Inl e \<Rightarrow> Inl e
            | Inr (lower_idx, lower_vals) \<Rightarrow>
                (case interp1d spline (map ((!) freqs_cut) lower_idx) lower_vals of
                   Inl e \<Rightarrow> Inl e
                 | Inr f \<Rightarrow>
                     (let hull_interp = map f freqs_cut;
                          hull_interp = map (\<lambda>h. max h min_db) hull_interp;
                          profile = map (\<lambda>(c, h). max (c - h) 0) (zip curve_cut hull_interp)
                      in Inr (freqs_cut, profile)))))"

text \<open>
  \<open>compute_spectrogram\<close> from the matrix \<open>stft\<close> that \<open>librosa.stft\<close> returns (one row
  per frequency bin, one column per frame): \<open>10 * log10(clip(|stft|^2, 1e-10, 1e6))\<close>.
\<close>

definition to_db :: "real \<Rightarrow> real" where
  "to_db p = 10 * log 10 (np_clip p (1 / 10 ^ 10) (10 ^ 6))"

definition compute_spectrogram :: "complex list list \<Rightarrow> real list list" where
  "compute_spectrogram stft = map (map (\<lambda>z. to_db ((cmod z) ^ 2))) stft"

text \<open>
  \<open>np.mean(spec, axis=1)\<close>. \<open>librosa.stft\<close> pads and centres the signal, so every row has
  at least one frame; for a row without frames NumPy would give NaN, which this real-valued
  function does not represent, and the theorems below assume non-empty rows.
\<close>

definition mean_over_time :: "real list list \<Rightarrow> real list" where
  "mean_over_time spec = map (\<lambda>row. sum_list row / real (length row)) spec"

text \<open>\<open>np.linspace(0, stop, num=num)\<close>.\<close>

definition linspace0 :: "real \<Rightarrow> nat \<Rightarrow> real list" where
  "linspace0 stop num = map (\<lambda>i. real i * (stop / real (num - 1))) [0 ..< num]"

text \<open>
  \<open>compute_fakeprint\<close>, from the STFT matrix on: spectrogram, mean over time, frequency
  grid, residual profile (\<open>min_db = -45\<close>), normalisation (\<open>max_db = 5\<close>).
\<close>

definition compute_fakeprint ::
  "spline \<Rightarrow> real \<Rightarrow> real \<Rightarrow> real \<Rightarrow> complex list list \<Rightarrow> error + real list" where
  "compute_fakeprint spline sr fmin fmax stft =
     (let spec = compute_spectrogram stft;
          mean_spec = mean_over_time spec;
          freqs = linspace0 (sr / 2) (length mean_spec)
      in case curve_profile spline fmin fmax freqs mean_spec (- 45) of
           Inl e \<Rightarrow> Inl e
         | Inr (_, profile) \<Rightarrow> max_normalize profile 5)"

text \<open>
  A stand-in for the external spline, used to run the pipeline on concrete inputs: the
  interpolant through any points is constant.
\<close>

definition const_spline :: "real \<Rightarrow> spline" where
  "const_spline c xs ys q = c"

section \<open>classifier.py\<close>

subsection \<open>NumPy primitives used by the heuristic\<close>

text \<open>
  A NumPy double that may be non-finite. \<open>np.nan_to_num(v, nan=0.0)\<close> replaces NaN by 0
  and, since \<open>posinf\<close> and \<open>neginf\<close> are left at their defaults, the infinities by the
  largest and the smallest finite double.
\<close>

datatype npfloat = Fin real | PInf | NInf | NaN

definition DBL_MAX :: real where
  "DBL_MAX = (2 ^ 53 - 1) * 2 ^ 971"

definition nan_to_num :: "npfloat \<Rightarrow> real" where
  "nan_to_num v = (case v of Fin r \<Rightarrow> r | NaN \<Rightarrow> 0 | PInf \<Rightarrow> DBL_MAX | NInf \<Rightarrow> - DBL_MAX)"

text \<open>Mean and population standard deviation (\<open>ddof = 0\<close>) of a non-empty array.\<close>

definition mean :: "real list \<Rightarrow> real" where
  "mean xs = sum_list xs / real (length xs)"

definition std :: "real list \<Rightarrow> real" where
  "std xs = sqrt (mean (map (\<lambda>v. \<bar>v - mean xs\<bar> ^ 2) xs))"

text \<open>\<open>np.mean\<close> and \<open>np.std\<close>: NaN (with a warning, no exception) on an empty array.\<close>

definition np_mean :: "real list \<Rightarrow> npfloat" where
  "np_mean xs = (if xs = [] then NaN else Fin (mean xs))"

definition np_std :: "real list \<Rightarrow> npfloat" where
  "np_std xs = (if xs = [] then NaN else Fin (std xs))"

text \<open>Division of a NumPy double by a Python float (no exception; signed zeros ignored).\<close>

definition np_divide :: "npfloat \<Rightarrow> real \<Rightarrow> npfloat" where
  "np_divide v d =
     (case v of
        NaN \<Rightarrow> NaN
      | Fin a \<Rightarrow> (if d \<noteq> 0 then Fin (a / d)
                  else if a = 0 then NaN else if 0 < a then PInf else NInf)
      | PInf \<Rightarrow> (if 0 \<le> d then PInf else NInf)
      | NInf \<Rightarrow> (if 0 \<le> d then NInf else PInf))"

text \<open>\<open>np.percentile(xs, q)\<close> with the default linear interpolation, on a non-empty array.\<close>

definition np_percentile :: "real list \<Rightarrow> real \<Rightarrow> real" where
  "np_percentile xs q =
     (let s = sort xs;
          n = length xs;
          h = q / 100 * real (n - 1);
          lo = nat \<lfloor>h\<rfloor>;
          hi = min (lo + 1) (n - 1);
          g = h - real lo
      in s ! lo + g * (s ! hi - s ! lo))"

text \<open>\<open>np.where(xs > t)[0]\<close> and \<open>np.diff\<close> of an index array.\<close>

definition np_where_gt :: "real list \<Rightarrow> real \<Rightarrow> nat list" where
  "np_where_gt xs t = filter (\<lambda>i. t < xs ! i) [0 ..< length xs]"

definition np_diff :: "nat list \<Rightarrow> real list" where
  "np_diff ps = map (\<lambda>(a, b). real b - real a) (zip ps (tl ps))"

text \<open>
  \<open>np.correlate(a, v, mode='full')\<close>: entry \<open>j\<close> is the sum of \<open>a[i + j - (m - 1)] * v[i]\<close>
  over the \<open>i\<close> for which the index into \<open>a\<close> is in range.
\<close>

definition np_correlate_full :: "real list \<Rightarrow> real list \<Rightarrow> real list" where
  "np_correlate_full a v =
     (let n = length a; m = length v in
      map (\<lambda>j. sum_list (map (\<lambda>i. if m - 1 \<le> i + j \<and> i + j - (m - 1) < n
                                    then a ! (i + j - (m - 1)) * v ! i else 0) [0 ..< m]))
          [0 ..< n + m - 1])"

subsection \<open>The heuristic prediction\<close>

text \<open>
  The dictionary returned by \<open>_compute_heuristic_prediction\<close>: the four result fields and
  the nested dictionary \<open>details\<close>, key by key.
\<close>

record details =
  peak_count_high :: nat
  peak_count_medium :: nat
  peak_count_low :: nat
  peak_density_high :: real
  peak_density_medium :: real
  peak_density_low :: real
  peak_regularity_score :: real
  peak_spacing_variance :: real
  peak_spacing_cv :: real
  fakeprint_mean :: real
  fakeprint_max :: real
  fakeprint_std :: real
  fakeprint_kurtosis :: real
  periodicity_score :: real
  high_freq_energy :: real
  high_freq_ratio :: real
  kurtosis_bonus :: real
  hf_adjustment :: real
  combined_ia_indicator :: bool
  combined_bonus :: real
  score :: real

record prediction =
  is_ai_generated :: bool
  confidence :: real
  ai_probability :: real
  human_probability :: real
  details :: details

text \<open>
  The body of \<open>_compute_heuristic_prediction\<close> is embedded section by section, in the
  order of the source: the analysis sections 1 to 5 compute the local variables collected in
  the record \<open>features\<close>, the scoring section and the adjustment rules compute the local
  variables collected in \<open>scoring\<close>, and the final section builds the result.
\<close>

record features =
  ft_count_high :: nat
  ft_count_medium :: nat
  ft_count_low :: nat
  ft_density_high :: real
  ft_density_medium :: real
  ft_density_low :: real
  ft_regularity :: real
  ft_spacing_variance :: real
  ft_spacing_cv :: real
  ft_mean :: real
  ft_max :: real
  ft_std :: real
  ft_p75 :: real
  ft_p90 :: real
  ft_kurtosis :: real
  ft_high_freq_energy :: real
  ft_high_freq_ratio :: real
  ft_periodicity :: real

record scoring =
  sc_kurtosis_bonus :: real
  sc_hf_adjustment :: real
  sc_combined_ia_indicator :: bool
  sc_combined_bonus :: real
  sc_score :: real

text \<open>
  Analysis 2: the \<open>if\<close>/\<open>elif\<close> chain on the coefficient of variation \<open>cv\<close>, and the
  block around it, which returns \<open>peak_regularity_score\<close>, \<open>peak_spacing_variance\<close> and
  \<open>peak_spacing_cv\<close>. The spacings are not empty where \<open>np.std\<close> and \<open>np.mean\<close> are
  applied to them.
\<close>

definition regularity_of_cv :: "real \<Rightarrow> real" where
  "regularity_of_cv cv =
     (if cv < 0.3 then 0.8 + (0.3 - cv) * 0.67
      else if cv < 0.5 then 0.5 + (0.5 - cv) * 1.5
      else if cv < 0.7 then 0.3 + (0.7 - cv) * 1
      else max 0 (0.3 - (cv - 0.7) * 0.5))"

definition peak_regularity :: "nat list \<Rightarrow> real \<times> real \<times> real" where
  "peak_regularity peaks_medium =
     (if length peaks_medium > 3 then
        (let peak_spacings = np_diff peaks_medium;
             spacing_variance = std peak_spacings;
             mean_spacing = mean peak_spacings
         in if mean_spacing > 0
            then (let cv = spacing_variance / mean_spacing
                  in (regularity_of_cv cv, spacing_variance, cv))
            else (0.5, spacing_variance, 0))
      else (0, 0, 0))"

text \<open>
  Analysis 3, the kurtosis statement: the quotient
  \<open>np.mean((fakeprint - fakeprint_mean)**4) / (fakeprint_std**4 + 1e-10)\<close>, and
  \<open>float(np.nan_to_num(..., nan=0.0))\<close> around it.
\<close>

definition kurtosis_raw :: "real list \<Rightarrow> real \<Rightarrow> real \<Rightarrow> npfloat" where
  "kurtosis_raw fakeprint fp_mean fp_std =
     np_divide (np_mean (map (\<lambda>v. (v - fp_mean) ^ 4) fakeprint)) (fp_std ^ 4 + 1 / 10 ^ 10)"

definition kurtosis_stat :: "real list \<Rightarrow> real \<Rightarrow> real \<Rightarrow> real" where
  "kurtosis_stat fakeprint fp_mean fp_std = nan_to_num (kurtosis_raw fakeprint fp_mean fp_std)"

text \<open>
  Analysis 5: the autocorrelation of the centred fakeprint, its non-negative lags, the
  normalisation by the lag-0 value, and the maximum over the lags \<open>2 ..< min(50, len)\<close>.
\<close>

definition periodicity :: "real list \<Rightarrow> real \<Rightarrow> real" where
  "periodicity fakeprint fp_mean =
     (if length fakeprint > 10 then
        (let centred = map (\<lambda>v. v - fp_mean) fakeprint;
             autocorr = np_correlate_full centred centred;
             autocorr = drop (length autocorr div 2) autocorr;
             autocorr = map (\<lambda>v. v / (autocorr ! 0 + 1 / 10 ^ 10)) autocorr
         in if length autocorr > 5
            then (let secondary_peaks = drop 2 (take (min 50 (length autocorr)) autocorr)
                  in if length secondary_peaks > 0 then Max (set secondary_peaks) else 0)
            else 0)
      else 0)"

text \<open>The seven additive buckets of the scoring section, one \<open>if\<close>/\<open>elif\<close> chain each.\<close>

definition points_peak_count :: "nat \<Rightarrow> real \<Rightarrow> real" where
  "points_peak_count count_medium multiplier =
     (if 50 \<le> count_medium \<and> count_medium \<le> 150 then 20 * multiplier
      else if count_medium < 50 then real count_medium * 0.3 * multiplier
      else (let excess = real count_medium - 150;
                penalty = min 20 (excess * 0.1)
            in (20 - penalty) * multiplier))"

definition points_peak_high :: "nat \<Rightarrow> real" where
  "points_peak_high count_high =
     (if 5 \<le> count_high \<and> count_high \<le> 30 then 15
      else if count_high < 5 then real count_high * 3
      else (let excess = real count_high - 30;
                penalty = min 10 (excess * 0.2)
            in 15 - penalty))"

definition points_mean :: "real \<Rightarrow> real" where
  "points_mean m =
     (if 0.06 \<le> m \<and> m \<le> 0.10 then 15
      else if m < 0.06 then m * 250
      else if 0.10 < m \<and> m \<le> 0.12 then 10
      else max 0 (8 - (m - 0.12) * 80))"

definition points_max :: "real \<Rightarrow> real" where
  "points_max mx = (if mx > 0.8 then 8 else if mx > 0.6 then 6 else mx * 10)"

definition points_p90 :: "real \<Rightarrow> real" where
  "points_p90 p90 =
     (if 0.12 \<le> p90 \<and> p90 \<le> 0.22 then 10
      else if p90 < 0.12 then p90 * 80
      else if 0.22 < p90 \<and> p90 \<le> 0.28 then 5
      else max 0 (3 - (p90 - 0.28) * 15))"

definition points_periodicity :: "real \<Rightarrow> real" where
  "points_periodicity p =
     (if p > 0.5 then 12 else if p > 0.40 then 8 else if p > 0.30 then 4
      else if p > 0.20 then 2 else p * 8)"

text \<open>Rule 1 (kurtosis bonus) and rule 2 (high-frequency adjustment).\<close>

definition kurtosis_bonus_of :: "real \<Rightarrow> real" where
  "kurtosis_bonus_of k =
     (if k > 15 then 20
      else if k > 10 then 15 + (k - 10) * 1
      else if k > 6 then 8 + (k - 6) * 1.75
      else if k > 4 then (k - 4) * 4
      else 0)"

definition hf_adjustment_of :: "real \<Rightarrow> real \<Rightarrow> real \<Rightarrow> real" where
  "hf_adjustment_of hfe k_bonus regularity =
     (if hfe = 0 \<or> hfe < 0.0000001
      then (if k_bonus > 10 \<or> regularity > 0.5 then 10 else 3)
      else if hfe < 0.00001 then 2
      else if hfe < 0.00005 then - 3
      else 0)"

text \<open>
  Analysis sections 1 to 5. \<open>np.max\<close> is the first call that raises on an empty
  fakeprint (\<open>np.mean\<close> before it only warns and yields NaN, which \<open>nan_to_num\<close> turns
  into 0). \<open>extra_features.get('high_freq_energy', 0.0)\<close> is a lookup with a default.
\<close>

definition extract_features :: "real list \<Rightarrow> (string \<rightharpoonup> real) \<Rightarrow> error + features" where
  "extract_features fakeprint extra_features =
     (let peaks_high = np_where_gt fakeprint 0.5;
          peaks_medium = np_where_gt fakeprint 0.3;
          peaks_low = np_where_gt fakeprint 0.1;
          count_high = length peaks_high;
          count_medium = length peaks_medium;
          count_low = length peaks_low;
          n = length fakeprint;
          density_high = (if n > 0 then real count_high / real n else 0);
          density_medium = (if n > 0 then real count_medium / real n else 0);
          density_low = (if n > 0 then real count_low / real n else 0);
          (regularity, spacing_variance, spacing_cv) = peak_regularity peaks_medium;
          fp_mean = nan_to_num (np_mean fakeprint)
      in if fakeprint = [] then Inl ValueError
         else
           (let fp_max = nan_to_num (Fin (Max (set fakeprint)));
                fp_std = nan_to_num (np_std fakeprint);
                fp_p75 = np_percentile fakeprint 75;
                fp_p90 = np_percentile fakeprint 90;
                fp_kurtosis = kurtosis_stat fakeprint fp_mean fp_std;
                hfe = (case extra_features ''high_freq_energy'' of Some v \<Rightarrow> v | None \<Rightarrow> 0);
                total_energy = sum_list (map (\<lambda>v. v ^ 2) fakeprint);
                hf_ratio = hfe / (total_energy + 1 / 10 ^ 10);
                periodicity_sc = periodicity fakeprint fp_mean
            in Inr \<lparr> ft_count_high = count_high,
                     ft_count_medium = count_medium,
                     ft_count_low = count_low,
                     ft_density_high = density_high,
                     ft_density_medium = density_medium,
                     ft_density_low = density_low,
                     ft_regularity = regularity,
                     ft_spacing_variance = spacing_variance,
                     ft_spacing_cv = spacing_cv,
                     ft_mean = fp_mean,
                     ft_max = fp_max,
                     ft_std = fp_std,
                     ft_p75 = fp_p75,
                     ft_p90 = fp_p90,
                     ft_kurtosis = fp_kurtosis,
                     ft_high_freq_energy = hfe,
                     ft_high_freq_ratio = hf_ratio,
                     ft_periodicity = periodicity_sc \<rparr>))"

text \<open>
  The scoring section and the rules 1 to 4, with the running variable \<open>score\<close> (here
  \<open>sc\<close>) rebound at every \<open>score += ...\<close>, down to \<open>score = max(0.0, min(score, 100.0))\<close>.
\<close>

definition score_features :: "features \<Rightarrow> scoring" where
  "score_features ft =
     (let sc = 0;
          multiplier = 1 + ft_regularity ft;
          sc = sc + points_peak_count (ft_count_medium ft) multiplier;
          sc = sc + points_peak_high (ft_count_high ft);
          sc = sc + points_mean (ft_mean ft);
          sc = sc + points_max (ft_max ft);
          sc = sc + points_p90 (ft_p90 ft);
          sc = sc + points_periodicity (ft_periodicity ft);
          regularity_points = ft_regularity ft * 20;
          sc = sc + regularity_points;
          k_bonus = kurtosis_bonus_of (ft_kurtosis ft);
          sc = sc + k_bonus;
          hf_adj = hf_adjustment_of (ft_high_freq_energy ft) k_bonus (ft_regularity ft);
          sc = sc + hf_adj;
          combined = (5 < ft_kurtosis ft \<and> ft_kurtosis ft < 10
                      \<and> ft_high_freq_energy ft < 0.00005 \<and> ft_regularity ft > 0.3);
          c_bonus = (if combined then 15 else 0);
          sc = (if combined then sc + c_bonus else sc);
          sc = (if ft_count_medium ft > 50 \<and> ft_regularity ft > 0.6 then sc + 5 else sc);
          sc = max 0 (min sc 100)
      in \<lparr> sc_kurtosis_bonus = k_bonus,
           sc_hf_adjustment = hf_adj,
           sc_combined_ia_indicator = combined,
           sc_combined_bonus = c_bonus,
           sc_score = sc \<rparr>)"

text \<open>The final section: \<open>ai_probability\<close>, \<open>is_ai\<close>, \<open>confidence\<close> and the dictionary.\<close>

definition final_result :: "features \<Rightarrow> scoring \<Rightarrow> prediction" where
  "final_result ft sc =
     (let ai_prob = np_clip (sc_score sc) 0 100;
          is_ai = (ai_prob > 50);
          conf = \<bar>ai_prob - 50\<bar> / 50
      in \<lparr> is_ai_generated = is_ai,
           confidence = conf,
           ai_probability = ai_prob,
           human_probability = 100 - ai_prob,
           details = \<lparr>
             peak_count_high = ft_count_high ft,
             peak_count_medium = ft_count_medium ft,
             peak_count_low = ft_count_low ft,
             peak_density_high = ft_density_high ft,
             peak_density_medium = ft_density_medium ft,
             peak_density_low = ft_density_low ft,
             peak_regularity_score = ft_regularity ft,
             peak_spacing_variance = ft_spacing_variance ft,
             peak_spacing_cv = ft_spacing_cv ft,
             fakeprint_mean = ft_mean ft,
             fakeprint_max = ft_max ft,
             fakeprint_std = ft_std ft,
             fakeprint_kurtosis = ft_kurtosis ft,
             periodicity_score = ft_periodicity ft,
             high_freq_energy = ft_high_freq_energy ft,
             high_freq_ratio = ft_high_freq_ratio ft,
             kurtosis_bonus = sc_kurtosis_bonus sc,
             hf_adjustment = sc_hf_adjustment sc,
             combined_ia_indicator = sc_combined_ia_indicator sc,
             combined_bonus = sc_combined_bonus sc,
             score = sc_score sc \<rparr> \<rparr>)"

definition compute_heuristic_prediction ::
  "real list \<Rightarrow> (string \<rightharpoonup> real) \<Rightarrow> error + prediction" where
  "compute_heuristic_prediction fakeprint extra_features =
     (case extract_features fakeprint extra_features of
        Inl e \<Rightarrow> Inl e
      | Inr ft \<Rightarrow> Inr (final_result ft (score_features ft)))"

text \<open>
  The kurtosis-like statistic in the words of the specification:
  \<open>mean((x - mean)^4) / (std^4 + 1e-10)\<close>, to be compared with \<open>kurtosis_stat\<close>.
\<close>

definition spec_kurtosis :: "real list \<Rightarrow> real" where
  "spec_kurtosis x = mean (map (\<lambda>v. (v - mean x) ^ 4) x) / (std x ^ 4 + 1 / 10 ^ 10)"

text \<open>
  The kurtosis statement once more, now with the non-finite values of IEEE doubles, for the
  clause of the specification about non-finite results. A \<open>float64\<close> is a \<open>npfloat\<close>; an
  operation on finite operands yields its exact result when that lies in the range of the
  doubles and the infinity of its sign otherwise (rounding and underflow are not modelled,
  signed zeros are ignored), and the special values follow IEEE 754.
\<close>

definition ieee :: "real \<Rightarrow> npfloat" where
  "ieee r = (if DBL_MAX < r then PInf else if r < - DBL_MAX then NInf else Fin r)"

fun ieee_add :: "npfloat \<Rightarrow> npfloat \<Rightarrow> npfloat" where
  "ieee_add (Fin a) (Fin b) = ieee (a + b)"
| "ieee_add NaN _ = NaN"
| "ieee_add _ NaN = NaN"
| "ieee_add PInf NInf = NaN"
| "ieee_add NInf PInf = NaN"
| "ieee_add PInf _ = PInf"
| "ieee_add _ PInf = PInf"
| "ieee_add NInf _ = NInf"
| "ieee_add _ NInf = NInf"

definition ieee_neg :: "npfloat \<Rightarrow> npfloat" where
  "ieee_neg v = (case v of Fin a \<Rightarrow> Fin (- a) | PInf \<Rightarrow> NInf | NInf \<Rightarrow> PInf | NaN \<Rightarrow> NaN)"

definition ieee_sub :: "npfloat \<Rightarrow> npfloat \<Rightarrow> npfloat" where
  "ieee_sub a b = ieee_add a (ieee_neg b)"

fun ieee_div :: "npfloat \<Rightarrow> npfloat \<Rightarrow> npfloat" where
  "ieee_div NaN _ = NaN"
| "ieee_div _ NaN = NaN"
| "ieee_div (Fin a) (Fin b) =
     (if b \<noteq> 0 then ieee (a / b) else if a = 0 then NaN else if 0 < a then PInf else NInf)"
| "ieee_div (Fin a) _ = Fin 0"
| "ieee_div PInf (Fin b) = (if 0 \<le> b then PInf else NInf)"
| "ieee_div NInf (Fin b) = (if 0 \<le> b then NInf else PInf)"
| "ieee_div _ _ = NaN"

text \<open>\<open>v ** n\<close> on an array element, for \<open>n > 0\<close>; \<open>np.sqrt\<close>.\<close>

definition ieee_pow :: "npfloat \<Rightarrow> nat \<Rightarrow> npfloat" where
  "ieee_pow v n =
     (case v of Fin a \<Rightarrow> ieee (a ^ n) | NaN \<Rightarrow> NaN | PInf \<Rightarrow> PInf
      | NInf \<Rightarrow> (if even n then PInf else NInf))"

definition ieee_sqrt :: "npfloat \<Rightarrow> npfloat" where
  "ieee_sqrt v =
     (case v of Fin a \<Rightarrow> (if a < 0 then NaN else Fin (sqrt a)) | NaN \<Rightarrow> NaN | PInf \<Rightarrow> PInf
      | NInf \<Rightarrow> NaN)"

text \<open>
  \<open>np.add.reduce\<close>, summed from the left (the order in which NumPy adds the entries of a
  long array is not modelled), and on it \<open>np.mean\<close> and \<open>np.std\<close> as NumPy computes them:
  the sum over the count, and the root of the mean of the \<open>x * x\<close> for \<open>x = arr - arrmean\<close>.
  On an empty array both divide 0 by 0.
\<close>

definition ieee_sum :: "npfloat list \<Rightarrow> npfloat" where
  "ieee_sum xs = foldl ieee_add (Fin 0) xs"

definition np_mean_ieee :: "npfloat list \<Rightarrow> npfloat" where
  "np_mean_ieee arr = ieee_div (ieee_sum arr) (Fin (real (length arr)))"

definition np_std_ieee :: "npfloat list \<Rightarrow> npfloat" where
  "np_std_ieee arr =
     (let arrmean = ieee_div (ieee_sum arr) (Fin (real (length arr)));
          x = map (\<lambda>v. ieee_sub v arrmean) arr;
          x = map (\<lambda>v. ieee_pow v 2) x;
          ret = ieee_div (ieee_sum x) (Fin (real (length arr)))
      in ieee_sqrt ret)"

text \<open>
  \<open>fakeprint_std**4\<close> is a power of a Python \<open>float\<close>, which raises \<open>OverflowError\<close>
  where the power of an array element would be infinite.
\<close>

definition float_pow :: "real \<Rightarrow> nat \<Rightarrow> error + real" where
  "float_pow r n = (if DBL_MAX < \<bar>r ^ n\<bar> then Inl OverflowError else Inr (r ^ n))"

text \<open>
  The quotient \<open>np.mean((fakeprint - fakeprint_mean)**4) / (fakeprint_std**4 + 1e-10)\<close>,
  and the three statements \<open>fakeprint_mean = ...\<close>, \<open>fakeprint_max = ...\<close> (where
  \<open>np.max\<close> raises on an empty array), \<open>fakeprint_std = ...\<close> before it, with
  \<open>float(np.nan_to_num(..., nan=0.0))\<close> around each of them.
\<close>

definition kurtosis_quotient_ieee :: "npfloat list \<Rightarrow> real \<Rightarrow> real \<Rightarrow> error + npfloat" where
  "kurtosis_quotient_ieee fakeprint fp_mean fp_std =
     (let numerator = np_mean_ieee
            (map (\<lambda>v. ieee_pow (ieee_sub v (Fin fp_mean)) 4) fakeprint)
      in case float_pow fp_std 4 of
           Inl e \<Rightarrow> Inl e
         | Inr p \<Rightarrow> Inr (ieee_div numerator (ieee (p + 1 / 10 ^ 10))))"

definition fakeprint_kurtosis_ieee :: "npfloat list \<Rightarrow> error + real" where
  "fakeprint_kurtosis_ieee fakeprint =
     (let fp_mean = nan_to_num (np_mean_ieee fakeprint)
      in if fakeprint = [] then Inl ValueError
         else
           (let fp_std = nan_to_num (np_std_ieee fakeprint)
            in case kurtosis_quotient_ieee fakeprint fp_mean fp_std of
                 Inl e \<Rightarrow> Inl e
               | Inr q \<Rightarrow> Inr (nan_to_num q)))"

subsection \<open>The detector object\<close>

text \<open>
  The attributes of \<open>AudioAnalyzer\<close> and of \<open>AIDetector\<close>. The type parameter \<open>'m\<close> is
  the unpickled scikit-learn model.
\<close>

record audio_analyzer =
  cfg_sr :: nat
  cfg_n_fft :: nat
  cfg_fmin :: real
  cfg_fmax :: real

definition new_audio_analyzer :: audio_analyzer where
  "new_audio_analyzer = \<lparr> cfg_sr = 16000, cfg_n_fft = 16384, cfg_fmin = 5000, cfg_fmax = 16000 \<rparr>"

record 'm ai_detector =
  analyzer :: audio_analyzer
  model :: "'m option"
  is_trained :: bool

text \<open>
  The file system maps every path for which \<open>os.path.exists\<close> is true to what is found
  there: a regular file that can be read, with its content, a directory, or a file that the
  process may not read. \<open>open(path, 'rb')\<close> returns the content of a readable file and
  raises \<open>FileNotFoundError\<close>, \<open>IsADirectoryError\<close> or \<open>PermissionError\<close> otherwise.
\<close>

datatype fs_entry = RegularFile string | Directory | Unreadable

definition path_exists :: "(string \<rightharpoonup> fs_entry) \<Rightarrow> string \<Rightarrow> bool" where
  "path_exists fs path = (fs path \<noteq> None)"

definition open_rb :: "(string \<rightharpoonup> fs_entry) \<Rightarrow> string \<Rightarrow> error + string" where
  "open_rb fs path =
     (case fs path of
        None \<Rightarrow> Inl FileNotFoundError
      | Some Directory \<Rightarrow> Inl IsADirectoryError
      | Some Unreadable \<Rightarrow> Inl PermissionError
      | Some (RegularFile bytes) \<Rightarrow> Inr bytes)"

text \<open>
  \<open>pickle.load\<close> is a parameter that either raises or returns a model. \<open>load_model\<close>:
  the assignments happen only after \<open>pickle.load\<close> has returned. Neither
  \<open>load_model\<close> nor \<open>__init__\<close> has a \<open>try\<close> block.
\<close>

type_synonym 'm pickle_load = "string \<Rightarrow> error + 'm"

definition load_model ::
  "(string \<rightharpoonup> fs_entry) \<Rightarrow> 'm pickle_load \<Rightarrow> 'm ai_detector \<Rightarrow> string \<Rightarrow> error + 'm ai_detector" where
  "load_model fs pickle_load self path =
     (case open_rb fs path of
        Inl e \<Rightarrow> Inl e
      | Inr bytes \<Rightarrow>
          (case pickle_load bytes of
             Inl e \<Rightarrow> Inl e
           | Inr m \<Rightarrow> Inr (self\<lparr> model := Some m, is_trained := True \<rparr>)))"

text \<open>
  \<open>AIDetector.__init__(model_path=None)\<close>. The test \<open>if model_path and
  os.path.exists(model_path)\<close> fails for \<open>None\<close>, for the empty string and for a path
  at which nothing exists.
\<close>

definition ai_detector_init ::
  "(string \<rightharpoonup> fs_entry) \<Rightarrow> 'm pickle_load \<Rightarrow> string option \<Rightarrow> error + 'm ai_detector" where
  "ai_detector_init fs pickle_load model_path =
     (let self = \<lparr> analyzer = new_audio_analyzer, model = None, is_trained = False \<rparr> in
      case model_path of
        None \<Rightarrow> Inr self
      | Some path \<Rightarrow>
          if path \<noteq> [] \<and> path_exists fs path
          then (case load_model fs pickle_load self path of
                  Inl e \<Rightarrow> Inl e
                | Inr self' \<Rightarrow> Inr (self'\<lparr> is_trained := True \<rparr>))
          else Inr self)"

text \<open>A stand-in for \<open>pickle.load\<close> on a corrupt file: it raises on every content.\<close>

definition reject_pickle :: "unit pickle_load" where
  "reject_pickle bytes = Inl UnpicklingError"

section \<open>app.py: the batch endpoint\<close>

text \<open>
  JSON values and dictionaries, and an uploaded file: its \<open>filename\<close> and a content of
  any type \<open>'c\<close>.
\<close>

datatype jvalue = JStr string | JBool bool | JNum real | JNone

type_synonym jdict = "string \<rightharpoonup> jvalue"

record 'c file_storage =
  filename :: string
  content :: 'c

text \<open>
  \<open>allowed_file(filename)\<close>: \<open>'.' in filename and filename.rsplit('.', 1)[1].lower() in
  ALLOWED_EXTENSIONS\<close>. The text after the last dot is lowercased (ASCII letters).
\<close>

definition ascii_lower :: "char \<Rightarrow> char" where
  "ascii_lower c =
     (case map_of (zip ''ABCDEFGHIJKLMNOPQRSTUVWXYZ'' ''abcdefghijklmnopqrstuvwxyz'') c of
        Some l \<Rightarrow> l
      | None \<Rightarrow> c)"

definition rsplit_dot_last :: "string \<Rightarrow> string" where
  "rsplit_dot_last s = rev (takeWhile (\<lambda>c. c \<noteq> CHR ''.'') (rev s))"

definition allowed_file :: "string list \<Rightarrow> string \<Rightarrow> bool" where
  "allowed_file allowed_extensions fname =
     (CHR ''.'' \<in> set fname \<and> map ascii_lower (rsplit_dot_last fname) \<in> set allowed_extensions)"

definition ALLOWED_EXTENSIONS :: "string list" where
  "ALLOWED_EXTENSIONS = [''mp3'', ''wav'', ''ogg'', ''m4a'', ''flac'', ''aac'']"

text \<open>
  What the endpoint takes from its environment: the configured extensions and upload folder,
  \<open>secure_filename\<close> of werkzeug, and the outcome of the two calls in the \<open>try\<close> block,
  \<open>file.save(temp_path)\<close> followed by \<open>detector.predict(temp_path)\<close>: either the
  message \<open>str(e)\<close> of the exception raised, or the result dictionary. The removal of the
  temporary file in the \<open>finally\<close> block does not change the results and is left out.
\<close>

record 'c batch_env =
  env_allowed_extensions :: "string list"
  env_upload_folder :: string
  env_secure_filename :: "string \<Rightarrow> string"
  env_save_and_predict :: "'c file_storage \<Rightarrow> string \<Rightarrow> string + jdict"

definition temp_path :: "'c batch_env \<Rightarrow> 'c file_storage \<Rightarrow> string" where
  "temp_path env file = env_upload_folder env @ ''/'' @ env_secure_filename env (filename file)"

text \<open>The \<open>try\<close>/\<open>except\<close> of the loop body: the entry appended for one file.\<close>

definition batch_item :: "'c batch_env \<Rightarrow> 'c file_storage \<Rightarrow> jdict" where
  "batch_item env file =
     (let fname = env_secure_filename env (filename file) in
      case env_save_and_predict env file (temp_path env file) of
        Inr result \<Rightarrow> result(''filename'' \<mapsto> JStr fname, ''status'' \<mapsto> JStr ''success'')
      | Inl e \<Rightarrow> [''filename'' \<mapsto> JStr fname, ''status'' \<mapsto> JStr ''error'', ''error'' \<mapsto> JStr e])"

text \<open>The guard \<open>if file.filename == '' or not allowed_file(file.filename): continue\<close>.\<close>

definition skipped :: "'c batch_env \<Rightarrow> 'c file_storage \<Rightarrow> bool" where
  "skipped env file =
     (filename file = [] \<or> \<not> allowed_file (env_allowed_extensions env) (filename file))"

fun batch_loop :: "'c batch_env \<Rightarrow> 'c file_storage list \<Rightarrow> jdict list \<Rightarrow> jdict list" where
  "batch_loop env [] results = results"
| "batch_loop env (file # files) results =
     (if skipped env file
      then batch_loop env files results
      else batch_loop env files (results @ [batch_item env file]))"

text \<open>
  \<open>batch_analyze\<close>: status 400 when no file was sent, else status 200 with \<open>total\<close> and
  \<open>results\<close>.
\<close>

datatype batch_response =
    BatchOk nat "jdict list"
  | BadRequest

definition batch_analyze :: "'c batch_env \<Rightarrow> 'c file_storage list \<Rightarrow> batch_response" where
  "batch_analyze env files =
     (if files = [] then BadRequest
      else (let results = batch_loop env files [] in BatchOk (length results) results))"

text \<open>
  An environment to run the endpoint on concrete batches: the content of a file says whether
  it decodes, and a file that does not decode makes \<open>predict\<close> raise.
\<close>

definition demo_predict :: "bool file_storage \<Rightarrow> string \<Rightarrow> string + jdict" where
  "demo_predict file path =
     (if content file then Inr [''is_ai_generated'' \<mapsto> JBool False] else Inl ''corrupt'')"

definition demo_env :: "bool batch_env" where
  "demo_env = \<lparr> env_allowed_extensions = ALLOWED_EXTENSIONS,
                 env_upload_folder = ''./uploads'',
                 env_secure_filename = id,
                 env_save_and_predict = demo_predict \<rparr>"

section \<open>Properties of the lower hull\<close>

subsection \<open>The first minimum of a window\<close>

lemma first_min_index_less:
  assumes "xs \<noteq> []"
  shows "first_min_index xs < length xs"
proof -
  have "Min (set xs) \<in> set xs" using assms by (simp add: Min_in)
  then have "takeWhile (\<lambda>v. v \<noteq> Min (set xs)) xs \<noteq> xs"
    by (metis (mono_tags, lifting) set_takeWhileD)
  then have "length (takeWhile (\<lambda>v. v \<noteq> Min (set xs)) xs) \<noteq> length xs"
    by (metis takeWhile_eq_take take_all order_refl)
  moreover have "length (takeWhile (\<lambda>v. v \<noteq> Min (set xs)) xs) \<le> length xs"
    by (rule length_takeWhile_le)
  ultimately show ?thesis by (simp add: first_min_index_def)
qed

lemma first_min_index_nth:
  assumes "xs \<noteq> []"
  shows "xs ! first_min_index xs = Min (set xs)"
  using nth_length_takeWhile [of "\<lambda>v. v \<noteq> Min (set xs)" xs] first_min_index_less [OF assms]
  by (simp add: first_min_index_def)

lemma first_min_index_before:
  assumes "j < first_min_index xs"
  shows "Min (set xs) < xs ! j"
proof -
  let ?P = "\<lambda>v. v \<noteq> Min (set xs)"
  from assms have j: "j < length (takeWhile ?P xs)" by (simp add: first_min_index_def)
  then have "takeWhile ?P xs ! j \<in> set (takeWhile ?P xs)" by simp
  then have "?P (takeWhile ?P xs ! j)" by (metis (mono_tags, lifting) set_takeWhileD)
  then have ne: "xs ! j \<noteq> Min (set xs)" using j by (simp add: takeWhile_nth)
  have "j < length xs" using j length_takeWhile_le [of ?P xs] by simp
  then have "Min (set xs) \<le> xs ! j" by simp
  with ne show ?thesis by simp
qed

lemma win_min_range:
  assumes "0 < area" "i + area \<le> length x"
  shows "i \<le> win_min x area i" "win_min x area i < i + area"
proof -
  have ne: "take area (drop i x) \<noteq> []" using assms by auto
  show "i \<le> win_min x area i" by (simp add: win_min_def)
  have "first_min_index (take area (drop i x)) < length (take area (drop i x))"
    by (rule first_min_index_less [OF ne])
  then show "win_min x area i < i + area" using assms by (simp add: win_min_def)
qed

lemma win_min_le:
  assumes "0 < area" "i + area \<le> length x" "i \<le> j" "j < i + area"
  shows "x ! win_min x area i \<le> x ! j"
proof -
  let ?p = "take area (drop i x)"
  have ne: "?p \<noteq> []" using assms by auto
  have len: "length ?p = area" using assms by simp
  have k: "first_min_index ?p < area" using first_min_index_less [OF ne] len by simp
  have "?p ! first_min_index ?p = Min (set ?p)" by (rule first_min_index_nth [OF ne])
  moreover have "?p ! first_min_index ?p = x ! win_min x area i"
    using k assms by (simp add: win_min_def add.commute)
  moreover have "?p ! (j - i) = x ! j" using assms by simp
  moreover have "?p ! (j - i) \<in> set ?p" using assms len by (intro nth_mem) simp
  ultimately show ?thesis by (metis List.finite_set Min_le)
qed

lemma win_min_less:
  assumes "0 < area" "i + area \<le> length x" "i \<le> j" "j < win_min x area i"
  shows "x ! win_min x area i < x ! j"
proof -
  let ?p = "take area (drop i x)"
  have ne: "?p \<noteq> []" using assms by auto
  have len: "length ?p = area" using assms by simp
  have k: "first_min_index ?p < area" using first_min_index_less [OF ne] len by simp
  have ji: "j - i < first_min_index ?p" using assms by (simp add: win_min_def less_diff_conv2)
  have "Min (set ?p) < ?p ! (j - i)" by (rule first_min_index_before [OF ji])
  moreover have "?p ! first_min_index ?p = Min (set ?p)" by (rule first_min_index_nth [OF ne])
  moreover have "?p ! first_min_index ?p = x ! win_min x area i"
    using k assms by (simp add: win_min_def add.commute)
  moreover have "?p ! (j - i) = x ! j" using assms ji k by simp
  ultimately show ?thesis by simp
qed

text \<open>
  Sliding the window one step to the right never moves its first minimum to the left.
\<close>

lemma win_min_mono_Suc:
  assumes "0 < area" "Suc i + area \<le> length x"
  shows "win_min x area i \<le> win_min x area (Suc i)"
proof (rule ccontr)
  assume "\<not> ?thesis"
  then have lt: "win_min x area (Suc i) < win_min x area i" by simp
  have i: "i + area \<le> length x" using assms by simp
  have r1: "Suc i \<le> win_min x area (Suc i)" using win_min_range(1) [OF assms] .
  have r2: "win_min x area i < i + area" using win_min_range(2) [OF assms(1) i] .
  have "x ! win_min x area i < x ! win_min x area (Suc i)"
    using win_min_less [OF assms(1) i _ lt] r1 by simp
  moreover have "x ! win_min x area (Suc i) \<le> x ! win_min x area i"
    using win_min_le [OF assms, of "win_min x area i"] lt r1 r2 by simp
  ultimately show False by simp
qed




subsection \<open>The loop invariant\<close>

lemma hull_loop_append:
  "hull_loop x area (is1 @ is2) acc =
     (case hull_loop x area is1 acc of Inl e \<Rightarrow> Inl e | Inr acc' \<Rightarrow> hull_loop x area is2 acc')"
proof (induction is1 arbitrary: acc)
  case Nil
  show ?case by simp
next
  case (Cons i is1)
  obtain idx hv where acc: "acc = (idx, hv)" by (cases acc)
  show ?case unfolding acc
    by (simp add: Let_def Cons.IH split: sum.splits)
qed

lemma hull_loop_single:
  assumes "0 < area" "i + area \<le> length x"
  shows "hull_loop x area [i] (idx, hv) =
     Inr (if win_min x area i \<notin> set idx
          then (idx @ [win_min x area i], hv @ [x ! win_min x area i])
          else (idx, hv))"
proof -
  let ?p = "take area (drop i x)"
  have ne: "?p \<noteq> []" using assms by auto
  have "first_min_index ?p < length ?p" by (rule first_min_index_less [OF ne])
  then have "?p ! first_min_index ?p = x ! win_min x area i"
    using assms by (simp add: win_min_def add.commute)
  then show ?thesis using ne
    by (simp add: np_argmin_def Let_def win_min_def)
qed

lemma sorted_wrt_less_last_max:
  assumes "sorted_wrt (<) (idx :: nat list)" "a \<in> set idx"
  shows "a \<le> last idx"
proof -
  from assms(2) obtain i where i: "i < length idx" "idx ! i = a"
    by (auto simp: in_set_conv_nth)
  then have ne: "idx \<noteq> []" by auto
  show ?thesis
  proof (cases "i = length idx - 1")
    case True
    with i ne show ?thesis by (simp add: last_conv_nth)
  next
    case False
    with i have "i < length idx - 1" "length idx - 1 < length idx" by simp_all
    then have "idx ! i < idx ! (length idx - 1)"
      using assms(1) by (simp add: sorted_wrt_nth_less)
    with i ne show ?thesis by (simp add: last_conv_nth)
  qed
qed

text \<open>
  After the windows \<open>0, ..., k\<close> the index list is strictly increasing, starts with the
  minimum of the first window, ends with the minimum of the last one, and the values are
  the curve at the indices.
\<close>

lemma hull_loop_invariant:
  assumes "0 < area"
  shows "k + area \<le> length x \<Longrightarrow>
    \<exists>idx. hull_loop x area [0 ..< Suc k] ([], []) = Inr (idx, map ((!) x) idx)
      \<and> idx \<noteq> [] \<and> sorted_wrt (<) idx
      \<and> hd idx = win_min x area 0 \<and> last idx = win_min x area k
      \<and> (\<forall>j \<in> set idx. j < length x)"
proof (induction k)
  case 0
  have "win_min x area 0 < length x"
    using win_min_range(2) [OF assms, of 0 x] 0 by simp
  then show ?case
    using hull_loop_single [OF assms, of 0 x "[]" "[]"] 0 by simp
next
  case (Suc k)
  then have k: "k + area \<le> length x" by simp
  from Suc.IH [OF k] obtain idx where
    run: "hull_loop x area [0 ..< Suc k] ([], []) = Inr (idx, map ((!) x) idx)"
    and ne: "idx \<noteq> []" and srt: "sorted_wrt (<) idx"
    and hd: "hd idx = win_min x area 0" and lst: "last idx = win_min x area k"
    and rng: "\<forall>j \<in> set idx. j < length x"
    by blast
  let ?a = "win_min x area (Suc k)"
  have mono: "last idx \<le> ?a"
    using win_min_mono_Suc [OF assms, of k x] Suc.prems lst by simp
  have a_rng: "?a < length x"
    using win_min_range(2) [OF assms Suc.prems] Suc.prems by simp
  have step: "hull_loop x area [0 ..< Suc (Suc k)] ([], []) =
      Inr (if ?a \<notin> set idx then (idx @ [?a], map ((!) x) idx @ [x ! ?a])
           else (idx, map ((!) x) idx))"
    using hull_loop_append [of x area "[0 ..< Suc k]" "[Suc k]" "([], [])"]
      hull_loop_single [OF assms Suc.prems, of idx "map ((!) x) idx"] run
    by simp
  show ?case
  proof (cases "?a \<in> set idx")
    case True
    then have "?a \<le> last idx" by (rule sorted_wrt_less_last_max [OF srt])
    with mono have "last idx = ?a" by simp
    with True step ne srt hd rng show ?thesis by auto
  next
    case False
    have "\<forall>j \<in> set idx. j < ?a"
    proof
      fix j assume j: "j \<in> set idx"
      then have "j \<le> last idx" by (rule sorted_wrt_less_last_max [OF srt])
      moreover have "last idx \<noteq> ?a" using False ne last_in_set by metis
      ultimately show "j < ?a" using mono by simp
    qed
    then have "sorted_wrt (<) (idx @ [?a])" using srt by (simp add: sorted_wrt_append)
    moreover have "hd (idx @ [?a]) = win_min x area 0" using ne hd by simp
    ultimately show ?thesis using False step rng a_rng by auto
  qed
qed




subsection \<open>The hull of a curve at least as long as the window\<close>

lemma lower_hull_general_ext:
  assumes "0 < area" "area \<le> length x"
  shows "\<exists>idx. lower_hull x area = Inr (idx, map ((!) x) idx)
      \<and> idx \<noteq> [] \<and> sorted_wrt (<) idx \<and> hd idx = 0 \<and> last idx = length x - 1
      \<and> (\<forall>j \<in> set idx. j < length x)
      \<and> win_min x area (length x - area) \<in> set idx"
proof -
  define k where "k = length x - area"
  have k: "k + area \<le> length x" and rng: "[0 ..< length x + 1 - area] = [0 ..< Suc k]"
    using assms by (simp_all add: k_def Suc_diff_le)
  have xne: "x \<noteq> []" using assms by auto
  from hull_loop_invariant [OF assms(1) k] obtain idx where
    run: "hull_loop x area [0 ..< Suc k] ([], []) = Inr (idx, map ((!) x) idx)"
    and ne: "idx \<noteq> []" and srt: "sorted_wrt (<) idx"
    and lst: "last idx = win_min x area k"
    and bnd: "\<forall>j \<in> set idx. j < length x"
    by blast
  define idx1 where "idx1 = (if hd idx \<noteq> 0 then 0 # idx else idx)"
  define idx2 where "idx2 = (if last idx1 \<noteq> length x - 1 then idx1 @ [length x - 1] else idx1)"
  have lastx: "last x = x ! (length x - 1)" using xne by (simp add: last_conv_nth)
  have run': "hull_loop x area [0 ..< length x + 1 - area] ([], []) = Inr (idx, map ((!) x) idx)"
    using run by (simp only: rng)
  have res: "lower_hull x area = Inr (idx2, map ((!) x) idx2)"
    unfolding lower_hull_def run'
    using ne lastx by (simp add: idx1_def idx2_def Let_def)
  have ne1: "idx1 \<noteq> []" and hd1: "hd idx1 = 0" and last1: "last idx1 = last idx"
    using ne by (simp_all add: idx1_def)
  have "\<forall>j \<in> set idx. hd idx \<le> j"
    using srt ne by (cases idx) (auto simp: less_imp_le)
  then have srt1: "sorted_wrt (<) idx1"
    using srt by (auto simp: idx1_def)
  have bnd1: "\<forall>j \<in> set idx1. j < length x"
    using bnd xne by (auto simp: idx1_def)
  have le1: "\<forall>j \<in> set idx1. j \<le> last idx1"
    using sorted_wrt_less_last_max [OF srt1] by blast
  have "last idx1 \<le> length x - 1" using bnd1 ne1 last_in_set [OF ne1] by fastforce
  then have srt2: "sorted_wrt (<) idx2"
    using srt1 le1 by (auto simp: idx2_def sorted_wrt_append)
  have "idx2 \<noteq> []" "hd idx2 = 0" "last idx2 = length x - 1"
    using ne1 hd1 by (simp_all add: idx2_def)
  moreover have "\<forall>j \<in> set idx2. j < length x"
    using bnd1 xne by (auto simp: idx2_def)
  moreover have "win_min x area (length x - area) \<in> set idx2"
    using last_in_set [OF ne] lst by (auto simp: idx2_def idx1_def k_def)
  ultimately show ?thesis using res srt2 by blast
qed

lemma lower_hull_general:
  assumes "0 < area" "area \<le> length x"
  shows "\<exists>idx. lower_hull x area = Inr (idx, map ((!) x) idx)
      \<and> idx \<noteq> [] \<and> sorted_wrt (<) idx \<and> hd idx = 0 \<and> last idx = length x - 1
      \<and> (\<forall>j \<in> set idx. j < length x)"
  using lower_hull_general_ext [OF assms] by blast

lemma lower_hull_example:
  "lower_hull [3, 1, 4, 1, 5, 9, 2, 6, 5, 3, 5, 8] 10 = Inr ([0, 1, 3, 11], [3, 1, 1, 8])"
  by (simp add: lower_hull_def np_argmin_def first_min_index_def Let_def upt_rec)

text \<open>
  Claim C4. For every input curve of length at least \<open>AREA = 10\<close>, \<open>lower_hull\<close> returns
  a hull (it does not raise) whose indices are strictly increasing and contain index 0 and
  the final index of the curve: they are the first and the last index of the hull.
\<close>

theorem lower_hull_indices:
  assumes "10 \<le> length x"
  shows "\<exists>idx hv. lower_hull x 10 = Inr (idx, hv) \<and> sorted_wrt (<) idx
     \<and> 0 \<in> set idx \<and> length x - 1 \<in> set idx
     \<and> hd idx = 0 \<and> last idx = length x - 1"
proof -
  from lower_hull_general [of 10 x] assms obtain idx where
    res: "lower_hull x 10 = Inr (idx, map ((!) x) idx)" and ne: "idx \<noteq> []"
    and srt: "sorted_wrt (<) idx" and hd: "hd idx = 0" and lst: "last idx = length x - 1"
    by auto
  have "hd idx \<in> set idx" "last idx \<in> set idx" using ne by simp_all
  then have "0 \<in> set idx" "length x - 1 \<in> set idx" using hd lst by simp_all
  then show ?thesis using res srt hd lst by blast
qed

theorem lower_hull_indices_witness:
  "10 \<le> length [3, 1, 4, 1, 5, 9, 2, 6, 5, 3, 5, 8 :: real]
   \<and> (\<exists>idx hv. lower_hull [3, 1, 4, 1, 5, 9, 2, 6, 5, 3, 5, 8] 10 = Inr (idx, hv)
        \<and> sorted_wrt (<) idx \<and> 0 \<in> set idx \<and> 11 \<in> set idx \<and> hd idx = 0 \<and> last idx = 11)"
proof -
  have len: "length [3, 1, 4, 1, 5, 9, 2, 6, 5, 3, 5, 8 :: real] = 12" by simp
  show ?thesis
    using lower_hull_indices [of "[3, 1, 4, 1, 5, 9, 2, 6, 5, 3, 5, 8]"]
    unfolding len by simp
qed

text \<open>
  Claim C10. For every input curve of length at least the window width, every
  (index, value) pair of the returned hull satisfies value = curve[index], the
  force-included endpoints too; the indices are within the curve.
\<close>

theorem lower_hull_values:
  assumes "10 \<le> length x" and "lower_hull x 10 = Inr (idx, hv)"
  shows "length hv = length idx
     \<and> (\<forall>k < length idx. idx ! k < length x \<and> hv ! k = x ! (idx ! k))"
proof -
  from lower_hull_general [of 10 x] assms(1) obtain idx' where
    res: "lower_hull x 10 = Inr (idx', map ((!) x) idx')"
    and bnd: "\<forall>j \<in> set idx'. j < length x"
    by auto
  from res assms(2) have "idx = idx'" "hv = map ((!) x) idx" by simp_all
  then show ?thesis using bnd by simp
qed

theorem lower_hull_values_witness:
  "10 \<le> length [3, 1, 4, 1, 5, 9, 2, 6, 5, 3, 5, 8 :: real]
   \<and> lower_hull [3, 1, 4, 1, 5, 9, 2, 6, 5, 3, 5, 8] 10 = Inr ([0, 1, 3, 11], [3, 1, 1, 8])
   \<and> length [3, 1, 1, 8 :: real] = length [0, 1, 3, 11 :: nat]
   \<and> [3, 1, 1, 8] = map ((!) [3, 1, 4, 1, 5, 9, 2, 6, 5, 3, 5, 8 :: real]) [0, 1, 3, 11]"
  using lower_hull_values [of "[3, 1, 4, 1, 5, 9, 2, 6, 5, 3, 5, 8]" "[0, 1, 3, 11]" "[3, 1, 1, 8]"]
    lower_hull_example
  by simp

section \<open>Normalisation\<close>

lemma Max_map_divide:
  fixes xs :: "real list"
  assumes "xs \<noteq> []" "0 < c"
  shows "Max (set (map (\<lambda>v. v / c) xs)) = Max (set xs) / c"
proof -
  have "mono (\<lambda>v::real. v / c)" using assms(2) by (simp add: mono_def divide_right_mono)
  then have "(\<lambda>v. v / c) (Max (set xs)) = Max ((\<lambda>v. v / c) ` set xs)"
    using assms(1) by (intro mono_Max_commute) simp_all
  then show ?thesis by simp
qed

text \<open>
  Claim C1, as amended. For every non-empty residual vector, \<open>max_normalize\<close> returns a
  fakeprint of the same length whose elements all lie in \<open>[0, 1)\<close>; its maximum element
  is \<open>m / (1e-6 + m)\<close>, where \<open>m\<close> is the largest clipped residual, hence strictly below
  1; and when no residual is positive (all residuals zero) every element is 0.
\<close>

theorem max_normalize_range:
  assumes "r \<noteq> []"
  shows "\<exists>fp. max_normalize r 5 = Inr fp \<and> length fp = length r
     \<and> (\<forall>e \<in> set fp. 0 \<le> e \<and> e < 1)
     \<and> Max (set fp) = Max (set (map (\<lambda>v. np_clip v 0 5) r))
                        / (1 / 1000000 + Max (set (map (\<lambda>v. np_clip v 0 5) r)))
     \<and> Max (set fp) < 1
     \<and> ((\<forall>v \<in> set r. v \<le> 0) \<longrightarrow> (\<forall>e \<in> set fp. e = 0))"
proof -
  define x' where "x' = map (\<lambda>v. np_clip v 0 5) r"
  define m where "m = Max (set x')"
  define fp where "fp = map (\<lambda>v. v / (1 / 1000000 + m)) x'"
  have ne: "x' \<noteq> []" using assms by (simp add: x'_def)
  have res: "max_normalize r 5 = Inr fp"
    using ne by (simp add: max_normalize_def Let_def x'_def [symmetric] fp_def m_def)
  have nonneg: "\<forall>v \<in> set x'. 0 \<le> v" by (auto simp: x'_def np_clip_def)
  have le_m: "\<forall>v \<in> set x'. v \<le> m" by (simp add: m_def)
  have "m \<in> set x'" unfolding m_def using ne by (intro Max_in) simp_all
  then have m0: "0 \<le> m" using nonneg by blast
  then have pos: "0 < 1 / 1000000 + m" by simp
  have rng: "\<forall>e \<in> set fp. 0 \<le> e \<and> e < 1"
  proof
    fix e assume "e \<in> set fp"
    then obtain v where v: "v \<in> set x'" "e = v / (1 / 1000000 + m)" by (auto simp: fp_def)
    then have "0 \<le> v" "v < 1 / 1000000 + m" using nonneg le_m by (auto simp: add_pos_nonneg intro: le_less_trans)
    then show "0 \<le> e \<and> e < 1" using pos v(2) by simp
  qed
  have mx: "Max (set fp) = m / (1 / 1000000 + m)"
    unfolding fp_def m_def using Max_map_divide [OF ne pos] by (simp add: m_def)
  have lt1: "Max (set fp) < 1" unfolding mx using pos m0 by simp
  have zero: "(\<forall>v \<in> set r. v \<le> 0) \<longrightarrow> (\<forall>e \<in> set fp. e = 0)"
    by (auto simp: fp_def x'_def np_clip_def max_def)
  show ?thesis
    using res rng mx lt1 zero by (simp add: fp_def x'_def m_def)
qed

theorem max_normalize_range_witness:
  "[1, 7, - 2, 5 / 2] \<noteq> ([] :: real list)
   \<and> (\<exists>fp. max_normalize [1, 7, - 2, 5 / 2] 5 = Inr fp \<and> length fp = 4
          \<and> Max (set fp) = 5000000 / 5000001 \<and> Max (set fp) < 1)"
proof -
  from max_normalize_range [of "[1, 7, - 2, 5 / 2]"] obtain fp where
    "max_normalize [1, 7, - 2, 5 / 2] 5 = Inr fp"
    "length fp = length [1, 7, - 2, 5 / 2 :: real]"
    "Max (set fp) = Max (set (map (\<lambda>v. np_clip v 0 5) [1, 7, - 2, 5 / 2]))
                        / (1 / 1000000 + Max (set (map (\<lambda>v. np_clip v 0 5) [1, 7, - 2, 5 / 2])))"
    "Max (set fp) < 1"
    by auto
  then show ?thesis by (auto simp: np_clip_def)
qed

text \<open>
  The claim as it stands fails: the residual vectors \<open>[5]\<close> and \<open>[1e-6]\<close> are not
  degenerate, and the maxima of their fakeprints are \<open>5 / 5.000001\<close> and \<open>1 / 2\<close>,
  not 1.
\<close>

theorem max_normalize_unit_max_counterexample:
  "max_normalize [5] 5 = Inr [5000000 / 5000001]
   \<and> Max (set [5000000 / 5000001 :: real]) \<noteq> 1
   \<and> max_normalize [1 / 1000000] 5 = Inr [1 / 2]
   \<and> Max (set [1 / 2 :: real]) \<noteq> 1"
  by (simp add: max_normalize_def np_clip_def)

section \<open>Silence and short curves\<close>

lemma to_db_zero: "to_db 0 = - 100"
proof -
  have p: "(10::real) ^ 10 = 10 powr 10" by simp
  have "log 10 ((10::real) powr 10) = 10" by (rule log_powr_cancel) simp_all
  then have "log 10 (1 / (10::real) ^ 10) = - 10"
    unfolding p by (simp add: log_divide)
  then show ?thesis by (simp add: to_db_def np_clip_def)
qed

lemma map_const_replicate:
  assumes "\<forall>v \<in> set xs. f v = c"
  shows "map f xs = replicate (length xs) c"
  using assms by (induction xs) simp_all

lemma silent_spectrum:
  assumes "\<forall>row \<in> set stft. row \<noteq> [] \<and> (\<forall>z \<in> set row. z = 0)"
  shows "mean_over_time (compute_spectrogram stft) = replicate (length stft) (- 100)"
proof -
  have "\<forall>row \<in> set stft. sum_list (map (\<lambda>z. to_db ((cmod z) ^ 2)) row) / real (length row) = - 100"
  proof
    fix row assume r: "row \<in> set stft"
    with assms have ne: "row \<noteq> []" and z: "\<forall>z \<in> set row. z = 0" by auto
    have "map (\<lambda>z. to_db ((cmod z) ^ 2)) row = replicate (length row) (- 100)"
      using z by (intro map_const_replicate) (auto simp: to_db_zero)
    then show "sum_list (map (\<lambda>z. to_db ((cmod z) ^ 2)) row) / real (length row) = - 100"
      using ne by (simp add: sum_list_replicate)
  qed
  then have "map (\<lambda>row. sum_list (map (\<lambda>z. to_db ((cmod z) ^ 2)) row) / real (length row)) stft
      = replicate (length stft) (- 100)"
    by (intro map_const_replicate)
  then show ?thesis
    by (simp add: mean_over_time_def compute_spectrogram_def comp_def)
qed

text \<open>The hull of a constant curve: every window has its first minimum at its start.\<close>

lemma first_min_index_replicate:
  assumes "0 < n"
  shows "first_min_index (replicate n c) = 0"
proof -
  have "set (replicate n c) = {c}" using assms by simp
  then show ?thesis using assms by (simp add: first_min_index_def takeWhile_replicate)
qed

lemma win_min_replicate:
  assumes "0 < area" "i + area \<le> n"
  shows "win_min (replicate n c) area i = i"
proof -
  have "take area (drop i (replicate n c)) = replicate area c"
    using assms by (simp add: min_def)
  then show ?thesis using assms(1) by (simp add: win_min_def first_min_index_replicate)
qed

lemma lower_hull_constant:
  assumes "11 \<le> n"
  shows "\<exists>idx. lower_hull (replicate n c) 10 = Inr (idx, replicate (length idx) c)
      \<and> 3 \<le> length idx \<and> sorted_wrt (<) idx \<and> (\<forall>j \<in> set idx. j < n)"
proof -
  from lower_hull_general_ext [of 10 "replicate n c"] assms obtain idx where
    res: "lower_hull (replicate n c) 10 = Inr (idx, map ((!) (replicate n c)) idx)"
    and ne: "idx \<noteq> []" and srt: "sorted_wrt (<) idx"
    and hd: "hd idx = 0" and lst: "last idx = n - 1"
    and bnd: "\<forall>j \<in> set idx. j < n"
    and mid: "win_min (replicate n c) 10 (n - 10) \<in> set idx"
    by auto
  have "win_min (replicate n c) 10 (n - 10) = n - 10"
    using assms by (intro win_min_replicate) simp_all
  with mid have m: "n - 10 \<in> set idx" by simp
  have "hd idx \<in> set idx" "last idx \<in> set idx" using ne by simp_all
  then have "{0, n - 10, n - 1} \<subseteq> set idx" using hd lst m by simp
  then have "card {0, n - 10, n - 1} \<le> card (set idx)" by (intro card_mono) simp_all
  moreover have "card {0, n - 10, n - 1} = 3" using assms by simp
  moreover have "card (set idx) \<le> length idx" by (rule card_length)
  ultimately have three: "3 \<le> length idx" by simp
  have "map ((!) (replicate n c)) idx = replicate (length idx) c"
    using bnd by (intro map_const_replicate) simp
  with res three srt bnd show ?thesis by auto
qed

text \<open>The frequency grid, and with it the band, is strictly increasing.\<close>

lemma linspace0_strict:
  assumes "0 < stop" "i < j" "j < num"
  shows "linspace0 stop num ! i < linspace0 stop num ! j"
proof -
  have "0 < stop / real (num - 1)" using assms by simp
  then have "real i * (stop / real (num - 1)) < real j * (stop / real (num - 1))"
    using assms(2) by (intro mult_strict_right_mono) simp_all
  then show ?thesis using assms by (simp add: linspace0_def)
qed

lemma band_idx_sorted: "sorted_wrt (<) (band_idx fmin fmax freqs)"
  unfolding band_idx_def by (intro sorted_wrt_filter) (simp add: sorted_wrt_upt)

lemma band_idx_bound: "\<forall>i \<in> set (band_idx fmin fmax freqs). i < length freqs"
  by (auto simp: band_idx_def)

lemma band_freqs_sorted:
  assumes "0 < stop"
  shows "sorted_wrt (<) (map ((!) (linspace0 stop num)) (band_idx fmin fmax (linspace0 stop num)))"
proof -
  have "sorted_wrt (\<lambda>a b. linspace0 stop num ! a < linspace0 stop num ! b)
          (band_idx fmin fmax (linspace0 stop num))"
  proof (rule sorted_wrt_mono_rel [OF _ band_idx_sorted])
    fix a b
    assume "a \<in> set (band_idx fmin fmax (linspace0 stop num))"
      and b: "b \<in> set (band_idx fmin fmax (linspace0 stop num))" and "a < b"
    moreover have "b < num" using band_idx_bound b by (fastforce simp: linspace0_def)
    ultimately show "linspace0 stop num ! a < linspace0 stop num ! b"
      using assms by (intro linspace0_strict)
  qed
  then show ?thesis by (simp add: sorted_wrt_map)
qed

lemma sorted_pick_distinct:
  fixes ys :: "real list"
  assumes "sorted_wrt (<) ys" "sorted_wrt (<) idx" "\<forall>j \<in> set idx. j < length ys"
  shows "distinct (map ((!) ys) idx)"
proof -
  have "sorted_wrt (\<lambda>a b. ys ! a < ys ! b) idx"
  proof (rule sorted_wrt_mono_rel [OF _ assms(2)])
    fix a b assume "a \<in> set idx" "b \<in> set idx" "a < b"
    then show "ys ! a < ys ! b"
      using assms(1,3) by (simp add: sorted_wrt_nth_less)
  qed
  then have "sorted_wrt (<) (map ((!) ys) idx)" by (simp add: sorted_wrt_map)
  then show ?thesis by (simp add: strict_sorted_iff)
qed

text \<open>
  A curve that lies at or below \<open>min_db\<close> has an all-zero residual, whatever the spline,
  as soon as its hull is accepted by \<open>interp1d\<close>.
\<close>

lemma curve_profile_below_floor:
  assumes len: "length curve = length freqs"
    and low: "\<forall>c \<in> set curve. c \<le> min_db"
    and hull: "lower_hull (map ((!) curve) (band_idx fmin fmax freqs)) 10 = Inr (idx, vals)"
    and ok: "length idx = length vals" "3 \<le> length idx"
      "distinct (map ((!) (map ((!) freqs) (band_idx fmin fmax freqs))) idx)"
  shows "curve_profile spline fmin fmax freqs curve min_db =
     Inr (map ((!) freqs) (band_idx fmin fmax freqs),
          replicate (length (band_idx fmin fmax freqs)) 0)"
proof -
  define cutoff_idx where "cutoff_idx = band_idx fmin fmax freqs"
  define curve_cut where "curve_cut = map ((!) curve) cutoff_idx"
  define freqs_cut where "freqs_cut = map ((!) freqs) cutoff_idx"
  define f where "f = spline (map ((!) freqs_cut) idx) vals"
  have inb: "\<forall>i \<in> set cutoff_idx. i < length curve"
    by (auto simp: cutoff_idx_def band_idx_def len)
  then have noerr: "\<not> (\<exists>i \<in> set cutoff_idx. length curve \<le> i)" by auto
  have cut_low: "\<forall>c \<in> set curve_cut. c \<le> min_db"
    using inb low by (auto simp: curve_cut_def)
  have hull': "lower_hull curve_cut 10 = Inr (idx, vals)"
    using hull by (simp add: curve_cut_def cutoff_idx_def)
  have f: "interp1d spline (map ((!) freqs_cut) idx) vals = Inr f"
    using ok by (simp add: interp1d_def f_def freqs_cut_def cutoff_idx_def)
  have "\<forall>p \<in> set (zip curve_cut (map (\<lambda>h. max h min_db) (map f freqs_cut))).
          (\<lambda>(c, h). max (c - h) 0) p = 0"
  proof
    fix p assume p: "p \<in> set (zip curve_cut (map (\<lambda>h. max h min_db) (map f freqs_cut)))"
    obtain c h where ch: "p = (c, h)" by (cases p)
    with p have "c \<in> set curve_cut" "h \<in> set (map (\<lambda>h. max h min_db) (map f freqs_cut))"
      by (auto dest: set_zip_leftD set_zip_rightD)
    then have "c \<le> min_db" "min_db \<le> h" using cut_low by auto
    then show "(\<lambda>(c, h). max (c - h) 0) p = 0" by (simp add: ch)
  qed
  then have prof: "map (\<lambda>(c, h). max (c - h) 0)
        (zip curve_cut (map (\<lambda>h. max h min_db) (map f freqs_cut)))
      = replicate (length cutoff_idx) 0"
    using map_const_replicate [of "zip curve_cut (map (\<lambda>h. max h min_db) (map f freqs_cut))"
        "\<lambda>(c, h). max (c - h) 0" 0]
    by (simp add: curve_cut_def freqs_cut_def)
  show ?thesis
    unfolding curve_profile_def Let_def cutoff_idx_def [symmetric]
      curve_cut_def [symmetric] freqs_cut_def [symmetric]
    using noerr hull' f prof by simp
qed

lemma max_normalize_zeros:
  assumes "0 < n"
  shows "max_normalize (replicate n 0) 5 = Inr (replicate n 0)"
  using assms by (simp add: max_normalize_def np_clip_def Let_def)

text \<open>
  Claim C3, as amended. For silence (an STFT matrix of zeros, with at least one frame per
  bin, at a positive sample rate) whose band-limited curve has at least 11 points, the
  pipeline does not raise and returns the all-zero fakeprint, whatever the values of the
  spline. Nothing is claimed for a band-limited curve of 10 points or fewer.
\<close>

theorem silence_zero_fakeprint:
  assumes rows: "\<forall>row \<in> set stft. row \<noteq> [] \<and> (\<forall>z \<in> set row. z = 0)"
    and long: "11 \<le> length (band_idx fmin fmax (linspace0 (sr / 2) (length stft)))"
    and sr: "0 < sr"
  shows "compute_fakeprint spline sr fmin fmax stft =
     Inr (replicate (length (band_idx fmin fmax (linspace0 (sr / 2) (length stft)))) 0)"
proof -
  define freqs where "freqs = linspace0 (sr / 2) (length stft)"
  define curve where "curve = replicate (length stft) (- 100 :: real)"
  define n where "n = length (band_idx fmin fmax freqs)"
  have n11: "11 \<le> n" using long by (simp add: n_def freqs_def)
  have ms: "mean_over_time (compute_spectrogram stft) = curve"
    using silent_spectrum [OF rows] by (simp add: curve_def)
  have len: "length curve = length freqs" by (simp add: curve_def freqs_def linspace0_def)
  have low: "\<forall>c \<in> set curve. c \<le> - 45" by (simp add: curve_def)
  have "\<forall>i \<in> set (band_idx fmin fmax freqs). curve ! i = - 100"
    by (auto simp: band_idx_def curve_def freqs_def linspace0_def)
  then have cut: "map ((!) curve) (band_idx fmin fmax freqs) = replicate n (- 100)"
    unfolding n_def by (rule map_const_replicate)
  from lower_hull_constant [OF n11, of "- 100"] obtain idx where
    hull: "lower_hull (replicate n (- 100)) 10 = Inr (idx, replicate (length idx) (- 100))"
    and three: "3 \<le> length idx" and srt: "sorted_wrt (<) idx"
    and bnd: "\<forall>j \<in> set idx. j < n"
    by blast
  have fs: "sorted_wrt (<) (map ((!) freqs) (band_idx fmin fmax freqs))"
    unfolding freqs_def using sr by (intro band_freqs_sorted) simp
  have dist: "distinct (map ((!) (map ((!) freqs) (band_idx fmin fmax freqs))) idx)"
    using fs srt bnd by (intro sorted_pick_distinct) (simp_all add: n_def)
  have hull2: "lower_hull (map ((!) curve) (band_idx fmin fmax freqs)) 10
      = Inr (idx, replicate (length idx) (- 100))"
    using hull by (simp only: cut)
  have eq: "length idx = length (replicate (length idx) (- 100 :: real))" by simp
  have prof: "curve_profile spline fmin fmax freqs curve (- 45) =
      Inr (map ((!) freqs) (band_idx fmin fmax freqs), replicate n 0)"
    unfolding n_def
    by (rule curve_profile_below_floor [OF len low hull2 eq three dist])
  have "0 < n" using n11 by simp
  then have "max_normalize (replicate n 0) 5 = Inr (replicate n 0)" by (rule max_normalize_zeros)
  then show ?thesis
    unfolding compute_fakeprint_def Let_def ms
    using prof len by (simp add: freqs_def n_def curve_def)
qed

theorem silence_zero_fakeprint_witness:
  "11 \<le> length (band_idx 5000 16000 (linspace0 (16000 / 2) (length (replicate 40 [0 :: complex]))))
   \<and> compute_fakeprint (const_spline 0) 16000 5000 16000 (replicate 40 [0]) = Inr (replicate 15 0)"
proof -
  have b: "band_idx 5000 16000 (linspace0 8000 40) = [25 ..< 40]"
    by (simp add: band_idx_def linspace0_def upt_rec)
  have h1: "\<forall>row \<in> set (replicate 40 [0 :: complex]). row \<noteq> [] \<and> (\<forall>z \<in> set row. z = 0)"
    by simp
  have h2: "11 \<le> length (band_idx 5000 16000 (linspace0 (16000 / 2) (length (replicate 40 [0 :: complex]))))"
    by (simp add: b)
  have h3: "(0::real) < 16000" by simp
  have "compute_fakeprint (const_spline 0) 16000 5000 16000 (replicate 40 [0]) =
     Inr (replicate (length (band_idx 5000 16000 (linspace0 (16000 / 2) (length (replicate 40 [0 :: complex]))))) 0)"
    by (rule silence_zero_fakeprint [OF h1 h2 h3])
  moreover have "replicate 15 (0::real) = [0, 0, 0, 0, 0, 0, 0, 0, 0, 0, 0, 0, 0, 0, 0]"
    by (simp add: eval_nat_numeral)
  ultimately show ?thesis using h2 by (simp add: b)
qed

text \<open>
  The claim as it stands fails for a curve shorter than the window: on nine points the loop
  range of \<open>lower_hull\<close> is empty and \<open>idx[0]\<close> raises \<open>IndexError\<close>; with 20 frequency
  bins at 16 kHz only 8 lie in the band, so the pipeline raises with it, on silence too. It
  also fails for silence with exactly 10 band points (27 bins): the hull is \<open>[0, 9]\<close>, and
  \<open>interp1d\<close> raises \<open>ValueError\<close> on two points.
\<close>

theorem short_curve_counterexample:
  "lower_hull [0, 0, 0, 0, 0, 0, 0, 0, 0] 10 = Inl IndexError
   \<and> compute_fakeprint (const_spline 0) 16000 5000 16000 (replicate 20 [0]) = Inl IndexError
   \<and> lower_hull [- 100, - 100, - 100, - 100, - 100, - 100, - 100, - 100, - 100, - 100] 10
       = Inr ([0, 9], [- 100, - 100])
   \<and> compute_fakeprint (const_spline 0) 16000 5000 16000 (replicate 27 [0]) = Inl ValueError"
proof -
  have b: "band_idx 5000 16000 (linspace0 8000 20) = [12 ..< 20]"
    by (simp add: band_idx_def linspace0_def upt_rec)
  have "curve_profile (const_spline 0) 5000 16000 (linspace0 8000 20) c (- 45) = Inl IndexError"
    if "length c = 20" for c
    using that by (auto simp add: curve_profile_def b lower_hull_def Let_def)
  then have one: "compute_fakeprint (const_spline 0) 16000 5000 16000 (replicate 20 [0]) = Inl IndexError"
    by (simp add: compute_fakeprint_def Let_def mean_over_time_def compute_spectrogram_def)
  have two: "lower_hull [0, 0, 0, 0, 0, 0, 0, 0, 0] 10 = Inl IndexError"
    by (simp add: lower_hull_def)
  have three: "lower_hull [- 100, - 100, - 100, - 100, - 100, - 100, - 100, - 100, - 100, - 100] 10
      = Inr ([0, 9], [- 100, - 100])"
    by (simp add: lower_hull_def np_argmin_def first_min_index_def Let_def)
  have b27: "band_idx 5000 16000 (linspace0 8000 27) = [17 ..< 27]"
    by (simp add: band_idx_def linspace0_def upt_rec)
  have rows: "\<forall>row \<in> set (replicate 27 [0 :: complex]). row \<noteq> [] \<and> (\<forall>z \<in> set row. z = 0)"
    by simp
  have ms: "mean_over_time (compute_spectrogram (replicate 27 [0])) = replicate 27 (- 100)"
    using silent_spectrum [OF rows] by simp
  have cut: "map ((!) (replicate 27 (- 100 :: real))) [17 ..< 27]
      = [- 100, - 100, - 100, - 100, - 100, - 100, - 100, - 100, - 100, - 100]"
    by (simp add: upt_rec)
  have "curve_profile (const_spline 0) 5000 16000 (linspace0 8000 27) (replicate 27 (- 100)) (- 45)
      = Inl ValueError"
    unfolding curve_profile_def Let_def b27 cut three
    by (simp add: interp1d_def)
  then have four: "compute_fakeprint (const_spline 0) 16000 5000 16000 (replicate 27 [0]) = Inl ValueError"
    unfolding compute_fakeprint_def Let_def ms by simp
  from two one three four show ?thesis by (intro conjI)
qed

section \<open>The heuristic prediction\<close>

subsection \<open>Feature extraction returns on every non-empty fakeprint\<close>

lemma extract_features_total:
  assumes "fakeprint \<noteq> []"
  shows "\<exists>ft. extract_features fakeprint extra_features = Inr ft"
  using assms unfolding extract_features_def
  by (simp add: Let_def split: prod.split)

lemma extract_features_empty: "extract_features [] extra_features = Inl ValueError"
  unfolding extract_features_def
  by (simp add: Let_def split: prod.split)

lemma score_features_range: "0 \<le> sc_score (score_features ft)" "sc_score (score_features ft) \<le> 100"
  unfolding score_features_def by (simp_all add: Let_def)

lemma final_result_contract:
  "0 \<le> score (details (final_result ft (score_features ft)))
   \<and> score (details (final_result ft (score_features ft))) \<le> 100
   \<and> (is_ai_generated (final_result ft (score_features ft))
        \<longleftrightarrow> score (details (final_result ft (score_features ft))) > 50)
   \<and> confidence (final_result ft (score_features ft))
        = \<bar>score (details (final_result ft (score_features ft))) - 50\<bar> / 50
   \<and> 0 \<le> confidence (final_result ft (score_features ft))
   \<and> confidence (final_result ft (score_features ft)) \<le> 1
   \<and> ai_probability (final_result ft (score_features ft))
        = score (details (final_result ft (score_features ft)))
   \<and> human_probability (final_result ft (score_features ft))
        = 100 - score (details (final_result ft (score_features ft)))"
proof -
  define s where "s = sc_score (score_features ft)"
  have rng: "0 \<le> s" "s \<le> 100" by (simp_all add: s_def score_features_range)
  then have clip: "np_clip s 0 100 = s" by (simp add: np_clip_def)
  have "\<bar>s - 50\<bar> / 50 \<le> 1" "0 \<le> \<bar>s - 50\<bar> / 50" using rng by auto
  then show ?thesis
    using rng clip unfolding s_def by (simp add: final_result_def Let_def)
qed

text \<open>The heuristic on the one-element fakeprint \<open>[0]\<close>, without auxiliary features.\<close>

lemma extract_features_example:
  "extract_features [0] Map.empty =
     Inr \<lparr> ft_count_high = 0, ft_count_medium = 0, ft_count_low = 0,
           ft_density_high = 0, ft_density_medium = 0, ft_density_low = 0, ft_regularity = 0,
           ft_spacing_variance = 0, ft_spacing_cv = 0, ft_mean = 0, ft_max = 0, ft_std = 0,
           ft_p75 = 0, ft_p90 = 0, ft_kurtosis = 0, ft_high_freq_energy = 0,
           ft_high_freq_ratio = 0, ft_periodicity = 0 \<rparr>"
  by (simp add: extract_features_def np_where_gt_def peak_regularity_def nan_to_num_def
      np_mean_def np_std_def mean_def std_def np_percentile_def kurtosis_stat_def
      kurtosis_raw_def np_divide_def periodicity_def Let_def)

lemma score_features_example:
  "score_features \<lparr> ft_count_high = 0, ft_count_medium = 0, ft_count_low = 0,
       ft_density_high = 0, ft_density_medium = 0, ft_density_low = 0, ft_regularity = 0,
       ft_spacing_variance = 0, ft_spacing_cv = 0, ft_mean = 0, ft_max = 0, ft_std = 0,
       ft_p75 = 0, ft_p90 = 0, ft_kurtosis = 0, ft_high_freq_energy = 0,
       ft_high_freq_ratio = 0, ft_periodicity = 0 \<rparr> =
     \<lparr> sc_kurtosis_bonus = 0, sc_hf_adjustment = 3, sc_combined_ia_indicator = False,
       sc_combined_bonus = 0, sc_score = 3 \<rparr>"
  by (simp add: score_features_def points_peak_count_def points_peak_high_def points_mean_def
      points_max_def points_p90_def points_periodicity_def kurtosis_bonus_of_def
      hf_adjustment_of_def Let_def)

lemma compute_heuristic_prediction_example:
  "\<exists>d. compute_heuristic_prediction [0] Map.empty =
        Inr \<lparr> is_ai_generated = False, confidence = 47 / 50, ai_probability = 3,
              human_probability = 97, details = d \<rparr>
      \<and> score d = 3 \<and> hf_adjustment d = 3"
  by (simp add: compute_heuristic_prediction_def extract_features_example
      score_features_example final_result_def np_clip_def)

text \<open>
  Claim C5. For every finite feature vector the heuristic result satisfies: the final score
  lies in \<open>[0, 100]\<close>; \<open>is_ai_generated\<close> holds iff the score exceeds 50; \<open>confidence\<close>
  is \<open>|score - 50| / 50\<close> and lies in \<open>[0, 1]\<close>; \<open>ai_probability\<close> is the score and
  \<open>human_probability\<close> is 100 minus the score. This holds for the result built from any
  feature record, and \<open>_compute_heuristic_prediction\<close> returns such a result on every
  non-empty fakeprint, whatever the auxiliary features.
\<close>

theorem heuristic_result_contract:
  "(let r = final_result ft (score_features ft) in
      0 \<le> score (details r) \<and> score (details r) \<le> 100
      \<and> (is_ai_generated r \<longleftrightarrow> score (details r) > 50)
      \<and> confidence r = \<bar>score (details r) - 50\<bar> / 50
      \<and> 0 \<le> confidence r \<and> confidence r \<le> 1
      \<and> ai_probability r = score (details r)
      \<and> human_probability r = 100 - score (details r))
   \<and> (fakeprint \<noteq> [] \<longrightarrow>
        (\<exists>r. compute_heuristic_prediction fakeprint extra_features = Inr r
          \<and> 0 \<le> score (details r) \<and> score (details r) \<le> 100
          \<and> (is_ai_generated r \<longleftrightarrow> score (details r) > 50)
          \<and> confidence r = \<bar>score (details r) - 50\<bar> / 50
          \<and> 0 \<le> confidence r \<and> confidence r \<le> 1
          \<and> ai_probability r = score (details r)
          \<and> human_probability r = 100 - score (details r)))"
proof -
  have a: "let r = final_result ft (score_features ft) in
      0 \<le> score (details r) \<and> score (details r) \<le> 100
      \<and> (is_ai_generated r \<longleftrightarrow> score (details r) > 50)
      \<and> confidence r = \<bar>score (details r) - 50\<bar> / 50
      \<and> 0 \<le> confidence r \<and> confidence r \<le> 1
      \<and> ai_probability r = score (details r)
      \<and> human_probability r = 100 - score (details r)"
    unfolding Let_def by (rule final_result_contract)
  have b: "fakeprint \<noteq> [] \<longrightarrow>
        (\<exists>r. compute_heuristic_prediction fakeprint extra_features = Inr r
          \<and> 0 \<le> score (details r) \<and> score (details r) \<le> 100
          \<and> (is_ai_generated r \<longleftrightarrow> score (details r) > 50)
          \<and> confidence r = \<bar>score (details r) - 50\<bar> / 50
          \<and> 0 \<le> confidence r \<and> confidence r \<le> 1
          \<and> ai_probability r = score (details r)
          \<and> human_probability r = 100 - score (details r))"
  proof
    assume "fakeprint \<noteq> []"
    from extract_features_total [OF this] obtain ft'
      where ft': "extract_features fakeprint extra_features = Inr ft'" by blast
    have res: "compute_heuristic_prediction fakeprint extra_features =
        Inr (final_result ft' (score_features ft'))"
      by (simp add: compute_heuristic_prediction_def ft')
    show "\<exists>r. compute_heuristic_prediction fakeprint extra_features = Inr r
          \<and> 0 \<le> score (details r) \<and> score (details r) \<le> 100
          \<and> (is_ai_generated r \<longleftrightarrow> score (details r) > 50)
          \<and> confidence r = \<bar>score (details r) - 50\<bar> / 50
          \<and> 0 \<le> confidence r \<and> confidence r \<le> 1
          \<and> ai_probability r = score (details r)
          \<and> human_probability r = 100 - score (details r)"
      unfolding res using final_result_contract [of ft'] by blast
  qed
  from a b show ?thesis by (rule conjI)
qed

theorem heuristic_result_contract_witness:
  "[0 :: real] \<noteq> []
   \<and> (\<exists>r. compute_heuristic_prediction [0] Map.empty = Inr r
        \<and> score (details r) = 3 \<and> \<not> is_ai_generated r \<and> confidence r = 47 / 50
        \<and> ai_probability r = 3 \<and> human_probability r = 97)"
proof -
  from heuristic_result_contract [of _ "[0]" Map.empty] obtain r where
    r: "compute_heuristic_prediction [0] Map.empty = Inr r"
    and c: "is_ai_generated r \<longleftrightarrow> score (details r) > 50"
      "confidence r = \<bar>score (details r) - 50\<bar> / 50"
      "ai_probability r = score (details r)" "human_probability r = 100 - score (details r)"
    by auto
  from compute_heuristic_prediction_example r have "score (details r) = 3" by auto
  with r c show ?thesis by auto
qed

subsection \<open>The regularity score\<close>

lemma regularity_of_cv_antimono:
  assumes "cv1 \<le> cv2"
  shows "regularity_of_cv cv2 \<le> regularity_of_cv cv1"
  using assms unfolding regularity_of_cv_def
  by (auto simp: max_def field_simps)

lemma np_where_gt_sorted: "sorted_wrt (<) (np_where_gt xs t)"
  unfolding np_where_gt_def by (intro sorted_wrt_filter) (simp add: sorted_wrt_upt)

lemma np_diff_ge_one:
  assumes "sorted_wrt (<) ps"
  shows "\<forall>d \<in> set (np_diff ps). 1 \<le> d"
  using assms
proof (induction ps)
  case Nil
  show ?case by (simp add: np_diff_def)
next
  case (Cons a ps)
  show ?case
  proof (cases ps)
    case Nil
    then show ?thesis by (simp add: np_diff_def)
  next
    case (Cons b qs)
    have "np_diff (a # b # qs) = (real b - real a) # np_diff (b # qs)"
      by (simp add: np_diff_def)
    moreover have "a < b" using Cons.prems Cons by simp
    moreover have "\<forall>d \<in> set (np_diff (b # qs)). 1 \<le> d"
      using Cons.IH Cons.prems Cons by simp
    ultimately show ?thesis using Cons by auto
  qed
qed

lemma length_np_diff: "length (np_diff ps) = length ps - 1"
  by (simp add: np_diff_def)

lemma mean_ge_one:
  assumes "xs \<noteq> []" "\<forall>d \<in> set xs. (1::real) \<le> d"
  shows "1 \<le> mean xs"
proof -
  have "real (length xs) \<le> sum_list xs"
    using assms(2) by (induction xs) auto
  then show ?thesis using assms(1) by (simp add: mean_def le_divide_eq)
qed

lemma peak_regularity_many:
  assumes "3 < length (np_where_gt fp t)"
  shows "peak_regularity (np_where_gt fp t) =
    (regularity_of_cv (std (np_diff (np_where_gt fp t)) / mean (np_diff (np_where_gt fp t))),
     std (np_diff (np_where_gt fp t)),
     std (np_diff (np_where_gt fp t)) / mean (np_diff (np_where_gt fp t)))"
proof -
  let ?d = "np_diff (np_where_gt fp t)"
  have "?d \<noteq> []" using assms length_np_diff [of "np_where_gt fp t"] by auto
  then have "1 \<le> mean ?d"
    using np_diff_ge_one [OF np_where_gt_sorted] by (rule mean_ge_one)
  then have "0 < mean ?d" by simp
  then show ?thesis using assms by (simp add: peak_regularity_def Let_def)
qed

lemma extract_features_regularity:
  assumes "extract_features fakeprint extra_features = Inr ft"
  shows "(ft_regularity ft, ft_spacing_variance ft, ft_spacing_cv ft)
           = peak_regularity (np_where_gt fakeprint 0.3)"
  using assms unfolding extract_features_def
  by (auto simp add: Let_def split: prod.splits if_splits)

text \<open>
  Claim C6. The regularity score is a non-increasing, piecewise-defined function of the
  spacing coefficient of variation \<open>cv\<close>: \<open>0.8 + (0.3 - cv) * 0.67\<close> for \<open>cv < 0.3\<close>,
  \<open>0.5 + (0.5 - cv) * 1.5\<close> on \<open>[0.3, 0.5)\<close>, \<open>0.3 + (0.7 - cv) * 1.0\<close> on
  \<open>[0.5, 0.7)\<close>, \<open>max(0, 0.3 - (cv - 0.7) * 0.5)\<close> from 0.7 on, with the values 0.8, 0.5
  and 0.3 at the boundaries 0.3, 0.5 and 0.7. With at most 3 medium-threshold peaks the score
  (and the spacing statistics) are 0. With more than 3 the mean spacing is positive, \<open>cv\<close>
  is the standard deviation of the spacings of consecutive medium-threshold peaks over their
  mean, and the score is that function of this \<open>cv\<close>; the score, the standard deviation
  and \<open>cv\<close> are what the feature extractor records.
\<close>

theorem regularity_schedule:
  "(\<forall>cv1 cv2. cv1 \<le> cv2 \<longrightarrow> regularity_of_cv cv2 \<le> regularity_of_cv cv1)
   \<and> (\<forall>cv. cv < 0.3 \<longrightarrow> regularity_of_cv cv = 0.8 + (0.3 - cv) * 0.67)
   \<and> (\<forall>cv. 0.3 \<le> cv \<and> cv < 0.5 \<longrightarrow> regularity_of_cv cv = 0.5 + (0.5 - cv) * 1.5)
   \<and> (\<forall>cv. 0.5 \<le> cv \<and> cv < 0.7 \<longrightarrow> regularity_of_cv cv = 0.3 + (0.7 - cv) * 1.0)
   \<and> (\<forall>cv. 0.7 \<le> cv \<longrightarrow> regularity_of_cv cv = max 0 (0.3 - (cv - 0.7) * 0.5))
   \<and> regularity_of_cv 0.3 = 0.8 \<and> regularity_of_cv 0.5 = 0.5 \<and> regularity_of_cv 0.7 = 0.3
   \<and> (length (np_where_gt fakeprint 0.3) \<le> 3
        \<longrightarrow> peak_regularity (np_where_gt fakeprint 0.3) = (0, 0, 0))
   \<and> (3 < length (np_where_gt fakeprint 0.3)
        \<longrightarrow> fst (peak_regularity (np_where_gt fakeprint 0.3))
            = regularity_of_cv (snd (snd (peak_regularity (np_where_gt fakeprint 0.3)))))
   \<and> (3 < length (np_where_gt fakeprint 0.3)
        \<longrightarrow> 0 < mean (np_diff (np_where_gt fakeprint 0.3))
          \<and> peak_regularity (np_where_gt fakeprint 0.3)
            = (regularity_of_cv (std (np_diff (np_where_gt fakeprint 0.3))
                                  / mean (np_diff (np_where_gt fakeprint 0.3))),
               std (np_diff (np_where_gt fakeprint 0.3)),
               std (np_diff (np_where_gt fakeprint 0.3))
                 / mean (np_diff (np_where_gt fakeprint 0.3))))
   \<and> (fakeprint \<noteq> []
        \<longrightarrow> (\<exists>ft. extract_features fakeprint extra_features = Inr ft
              \<and> (ft_regularity ft, ft_spacing_variance ft, ft_spacing_cv ft)
                  = peak_regularity (np_where_gt fakeprint 0.3)))"
proof -
  have a: "\<forall>cv1 cv2. cv1 \<le> cv2 \<longrightarrow> regularity_of_cv cv2 \<le> regularity_of_cv cv1"
    using regularity_of_cv_antimono by blast
  have b: "\<forall>cv. cv < 0.3 \<longrightarrow> regularity_of_cv cv = 0.8 + (0.3 - cv) * 0.67"
    "\<forall>cv. 0.3 \<le> cv \<and> cv < 0.5 \<longrightarrow> regularity_of_cv cv = 0.5 + (0.5 - cv) * 1.5"
    "\<forall>cv. 0.5 \<le> cv \<and> cv < 0.7 \<longrightarrow> regularity_of_cv cv = 0.3 + (0.7 - cv) * 1.0"
    "\<forall>cv. 0.7 \<le> cv \<longrightarrow> regularity_of_cv cv = max 0 (0.3 - (cv - 0.7) * 0.5)"
    by (simp_all add: regularity_of_cv_def)
  have c: "regularity_of_cv 0.3 = 0.8" "regularity_of_cv 0.5 = 0.5" "regularity_of_cv 0.7 = 0.3"
    by (simp_all add: regularity_of_cv_def)
  have d: "length (np_where_gt fakeprint 0.3) \<le> 3
        \<longrightarrow> peak_regularity (np_where_gt fakeprint 0.3) = (0, 0, 0)"
    by (simp add: peak_regularity_def)
  have e: "3 < length (np_where_gt fakeprint 0.3)
        \<longrightarrow> fst (peak_regularity (np_where_gt fakeprint 0.3))
            = regularity_of_cv (snd (snd (peak_regularity (np_where_gt fakeprint 0.3))))"
    by (simp add: peak_regularity_many)
  have f: "3 < length (np_where_gt fakeprint 0.3)
        \<longrightarrow> 0 < mean (np_diff (np_where_gt fakeprint 0.3))
          \<and> peak_regularity (np_where_gt fakeprint 0.3)
            = (regularity_of_cv (std (np_diff (np_where_gt fakeprint 0.3))
                                  / mean (np_diff (np_where_gt fakeprint 0.3))),
               std (np_diff (np_where_gt fakeprint 0.3)),
               std (np_diff (np_where_gt fakeprint 0.3))
                 / mean (np_diff (np_where_gt fakeprint 0.3)))"
  proof
    assume many: "3 < length (np_where_gt fakeprint 0.3)"
    let ?d = "np_diff (np_where_gt fakeprint 0.3)"
    have "?d \<noteq> []" using many length_np_diff [of "np_where_gt fakeprint 0.3"] by auto
    then have "1 \<le> mean ?d"
      using np_diff_ge_one [OF np_where_gt_sorted] by (rule mean_ge_one)
    then have "0 < mean ?d" by simp
    then show "0 < mean ?d \<and> peak_regularity (np_where_gt fakeprint 0.3)
            = (regularity_of_cv (std ?d / mean ?d), std ?d, std ?d / mean ?d)"
      using peak_regularity_many [OF many] by simp
  qed
  have g: "fakeprint \<noteq> []
        \<longrightarrow> (\<exists>ft. extract_features fakeprint extra_features = Inr ft
              \<and> (ft_regularity ft, ft_spacing_variance ft, ft_spacing_cv ft)
                  = peak_regularity (np_where_gt fakeprint 0.3))"
  proof
    assume ne: "fakeprint \<noteq> []"
    from extract_features_total [OF ne] obtain ft
      where ft: "extract_features fakeprint extra_features = Inr ft" by blast
    from extract_features_regularity [OF ft] ft
    show "\<exists>ft. extract_features fakeprint extra_features = Inr ft
              \<and> (ft_regularity ft, ft_spacing_variance ft, ft_spacing_cv ft)
                  = peak_regularity (np_where_gt fakeprint 0.3)" by blast
  qed
  from a b c d e f g show ?thesis by (intro conjI)
qed

theorem regularity_schedule_witness:
  "(2 / 10 :: real) \<le> 4 / 10
   \<and> regularity_of_cv (4 / 10) \<le> regularity_of_cv (2 / 10)
   \<and> regularity_of_cv (29 / 100) = 8067 / 10000
   \<and> regularity_of_cv (49 / 100) = 515 / 1000
   \<and> regularity_of_cv (69 / 100) = 31 / 100
   \<and> regularity_of_cv (9 / 10) = 2 / 10
   \<and> regularity_of_cv 2 = 0
   \<and> length (np_where_gt [0, 0, 1] 0.3) \<le> 3
   \<and> peak_regularity (np_where_gt [0, 0, 1] 0.3) = (0, 0, 0)
   \<and> np_where_gt [1, 0, 1, 0, 0, 0, 1, 0, 1, 0, 0, 0, 1] 0.3 = [0, 2, 6, 8, 12]
   \<and> np_diff [0, 2, 6, 8, 12] = [2, 4, 2, 4]
   \<and> mean [2, 4, 2, 4] = 3 \<and> std [2, 4, 2, 4] = 1
   \<and> peak_regularity (np_where_gt [1, 0, 1, 0, 0, 0, 1, 0, 1, 0, 0, 0, 1] 0.3)
       = (3 / 4, 1, 1 / 3)
   \<and> (\<exists>ft. extract_features [1, 0, 1, 0, 0, 0, 1, 0, 1, 0, 0, 0, 1] Map.empty = Inr ft
          \<and> ft_regularity ft = 3 / 4 \<and> ft_spacing_variance ft = 1 \<and> ft_spacing_cv ft = 1 / 3)
   \<and> peak_regularity (np_where_gt [1, 0, 1, 0, 1, 0, 1, 0, 1] 0.3) = (1001 / 1000, 0, 0)"
proof -
  let ?u = "[1, 0, 1, 0, 0, 0, 1, 0, 1, 0, 0, 0, 1] :: real list"
  let ?e = "[1, 0, 1, 0, 1, 0, 1, 0, 1] :: real list"
  note t0 = regularity_schedule [of "[0, 0, 1]" Map.empty]
  note tu = regularity_schedule [of ?u Map.empty]
  note te = regularity_schedule [of ?e Map.empty]
  have few: "length (np_where_gt [0, 0, 1] 0.3) \<le> 3"
    by (simp add: np_where_gt_def upt_rec)
  have pu: "np_where_gt ?u 0.3 = [0, 2, 6, 8, 12]"
    by (simp add: np_where_gt_def upt_rec)
  have pe: "np_where_gt ?e 0.3 = [0, 2, 4, 6, 8]"
    by (simp add: np_where_gt_def upt_rec)
  have du: "np_diff [0, 2, 6, 8, 12] = [2, 4, 2, 4]" by (simp add: np_diff_def)
  have de: "np_diff [0, 2, 4, 6, 8] = [2, 2, 2, 2]" by (simp add: np_diff_def)
  have mu: "mean [2, 4, 2, 4] = 3" by (simp add: mean_def)
  have su: "std [2, 4, 2, 4] = 1" by (simp add: std_def mean_def)
  have me: "mean [2, 2, 2, 2] = 2" by (simp add: mean_def)
  have se: "std [2, 2, 2, 2] = 0" by (simp add: std_def mean_def)
  from t0 have a: "\<forall>cv1 cv2. cv1 \<le> cv2 \<longrightarrow> regularity_of_cv cv2 \<le> regularity_of_cv cv1"
    by blast
  from t0 few have b: "peak_regularity (np_where_gt [0, 0, 1] 0.3) = (0, 0, 0)"
    by blast
  have d: "(2 / 10 :: real) \<le> 4 / 10" by simp
  with a have mono: "regularity_of_cv (4 / 10) \<le> regularity_of_cv (2 / 10)" by blast
  from t0 have r1: "\<forall>cv. cv < 0.3 \<longrightarrow> regularity_of_cv cv = 0.8 + (0.3 - cv) * 0.67"
    and r2: "\<forall>cv. 0.3 \<le> cv \<and> cv < 0.5 \<longrightarrow> regularity_of_cv cv = 0.5 + (0.5 - cv) * 1.5"
    and r3: "\<forall>cv. 0.5 \<le> cv \<and> cv < 0.7 \<longrightarrow> regularity_of_cv cv = 0.3 + (0.7 - cv) * 1.0"
    and r4: "\<forall>cv. 0.7 \<le> cv \<longrightarrow> regularity_of_cv cv = max 0 (0.3 - (cv - 0.7) * 0.5)"
    by blast+
  have v1: "regularity_of_cv (29 / 100) = 8067 / 10000" using r1 [rule_format, of "29 / 100"] by simp
  have v2: "regularity_of_cv (49 / 100) = 515 / 1000" using r2 [rule_format, of "49 / 100"] by simp
  have v3: "regularity_of_cv (69 / 100) = 31 / 100" using r3 [rule_format, of "69 / 100"] by simp
  have v4: "regularity_of_cv (9 / 10) = 2 / 10" using r4 [rule_format, of "9 / 10"] by simp
  have v5: "regularity_of_cv 2 = 0" using r4 [rule_format, of 2] by simp
  have v0: "regularity_of_cv 0 = 1001 / 1000" using r1 [rule_format, of 0] by simp
  have v6: "regularity_of_cv (1 / 3) = 3 / 4" using r2 [rule_format, of "1 / 3"] by simp
  have manyu: "3 < length (np_where_gt ?u 0.3)" by (simp add: pu)
  have manye: "3 < length (np_where_gt ?e 0.3)" by (simp add: pe)
  from tu manyu have "peak_regularity (np_where_gt ?u 0.3)
            = (regularity_of_cv (std (np_diff (np_where_gt ?u 0.3))
                                  / mean (np_diff (np_where_gt ?u 0.3))),
               std (np_diff (np_where_gt ?u 0.3)),
               std (np_diff (np_where_gt ?u 0.3))
                 / mean (np_diff (np_where_gt ?u 0.3)))"
    by blast
  then have ru: "peak_regularity (np_where_gt ?u 0.3) = (3 / 4, 1, 1 / 3)"
    by (simp only: pu du mu su v6 div_by_1 one_divide_eq_0_iff)
  from te manye have "peak_regularity (np_where_gt ?e 0.3)
            = (regularity_of_cv (std (np_diff (np_where_gt ?e 0.3))
                                  / mean (np_diff (np_where_gt ?e 0.3))),
               std (np_diff (np_where_gt ?e 0.3)),
               std (np_diff (np_where_gt ?e 0.3))
                 / mean (np_diff (np_where_gt ?e 0.3)))"
    by blast
  then have re: "peak_regularity (np_where_gt ?e 0.3) = (1001 / 1000, 0, 0)"
    by (simp only: pe de me se v0 div_0)
  have neu: "?u \<noteq> []" by simp
  from tu neu have "\<exists>ft. extract_features ?u Map.empty = Inr ft
              \<and> (ft_regularity ft, ft_spacing_variance ft, ft_spacing_cv ft)
                  = peak_regularity (np_where_gt ?u 0.3)"
    by blast
  then have fu: "\<exists>ft. extract_features ?u Map.empty = Inr ft
          \<and> ft_regularity ft = 3 / 4 \<and> ft_spacing_variance ft = 1 \<and> ft_spacing_cv ft = 1 / 3"
    by (simp only: ru prod.inject)
  from d mono v1 v2 v3 v4 v5 few b pu du mu su ru fu re show ?thesis by (intro conjI)
qed

subsection \<open>The kurtosis-like statistic\<close>

lemma extract_features_kurtosis:
  assumes "extract_features fakeprint extra_features = Inr ft"
  shows "ft_kurtosis ft = kurtosis_stat fakeprint (nan_to_num (np_mean fakeprint)) (nan_to_num (np_std fakeprint))"
  using assms unfolding extract_features_def
  by (auto simp add: Let_def split: prod.splits if_splits)


lemma mean_nonneg:
  assumes "\<forall>v \<in> set xs. (0::real) \<le> v"
  shows "0 \<le> mean xs"
  unfolding mean_def using assms by (intro divide_nonneg_nonneg sum_list_nonneg) auto

lemma std_nonneg: "0 \<le> std x"
  unfolding std_def by (intro real_sqrt_ge_zero mean_nonneg) simp

lemma std_pow4: "std x ^ 4 = (mean (map (\<lambda>v. (v - mean x) ^ 2) x)) ^ 2"
proof -
  define m2 where "m2 = mean (map (\<lambda>v. \<bar>v - mean x\<bar> ^ 2) x)"
  have "0 \<le> m2" unfolding m2_def by (rule mean_nonneg) simp
  then have "(sqrt m2) ^ 2 = m2" by simp
  moreover have "(sqrt m2) ^ 4 = ((sqrt m2) ^ 2) ^ 2" by simp
  ultimately have "(sqrt m2) ^ 4 = m2 ^ 2" by (simp only:)
  moreover have "m2 = mean (map (\<lambda>v. (v - mean x) ^ 2) x)" by (simp add: m2_def)
  ultimately show ?thesis by (simp add: std_def m2_def)
qed

lemma kurtosis_raw_value:
  "kurtosis_raw x (nan_to_num (np_mean x)) (nan_to_num (np_std x)) =
     (if x = [] then NaN else Fin (spec_kurtosis x))"
proof -
  have pos: "0 < std x ^ 4 + 1 / 10 ^ 10"
    by (intro add_nonneg_pos) simp_all
  then show ?thesis
    by (simp add: kurtosis_raw_def spec_kurtosis_def np_mean_def np_std_def
        nan_to_num_def np_divide_def)
qed

lemma DBL_MAX_pos: "0 < DBL_MAX"
  by (simp add: DBL_MAX_def)

lemma ieee_fin: "\<bar>r\<bar> \<le> DBL_MAX \<Longrightarrow> ieee r = Fin r"
  by (auto simp: ieee_def)

lemma foldl_ieee_add_fin:
  assumes "\<forall>v \<in> set xs. \<bar>v\<bar> \<le> c" "\<bar>a\<bar> + real (length xs) * c \<le> DBL_MAX" "0 \<le> c"
  shows "foldl ieee_add (Fin a) (map Fin xs) = Fin (a + sum_list xs)"
  using assms
proof (induction xs arbitrary: a)
  case Nil
  show ?case by simp
next
  case (Cons v xs)
  have v: "\<bar>v\<bar> \<le> c" using Cons.prems(1) by simp
  have le: "\<bar>a\<bar> + c + real (length xs) * c \<le> DBL_MAX"
    using Cons.prems(2) by (simp add: algebra_simps)
  have "0 \<le> real (length xs) * c" using Cons.prems(3) by simp
  then have "\<bar>a + v\<bar> \<le> DBL_MAX" using v le by linarith
  then have step: "ieee (a + v) = Fin (a + v)" by (rule ieee_fin)
  have "\<bar>a + v\<bar> + real (length xs) * c \<le> DBL_MAX" using v le by linarith
  then have "foldl ieee_add (Fin (a + v)) (map Fin xs) = Fin (a + v + sum_list xs)"
    using Cons.IH [of "a + v"] Cons.prems by simp
  then show ?case by (simp add: step add.assoc)
qed

lemma ieee_sum_fin:
  assumes "\<forall>v \<in> set xs. \<bar>v\<bar> \<le> c" "real (length xs) * c \<le> DBL_MAX" "0 \<le> c"
  shows "ieee_sum (map Fin xs) = Fin (sum_list xs)"
  using foldl_ieee_add_fin [of xs c 0] assms by (simp add: ieee_sum_def)

lemma sum_list_abs_bound:
  assumes "\<forall>v \<in> set xs. \<bar>v\<bar> \<le> (c::real)"
  shows "\<bar>sum_list xs\<bar> \<le> real (length xs) * c"
  using assms
proof (induction xs)
  case Nil
  show ?case by simp
next
  case (Cons v xs)
  have "\<bar>v + sum_list xs\<bar> \<le> \<bar>v\<bar> + \<bar>sum_list xs\<bar>" by simp
  also have "\<dots> \<le> c + real (length xs) * c" using Cons by (intro add_mono) simp_all
  finally show ?case by (simp add: algebra_simps)
qed

lemma mean_abs_bound:
  assumes "xs \<noteq> []" "\<forall>v \<in> set xs. \<bar>v\<bar> \<le> (c::real)"
  shows "\<bar>mean xs\<bar> \<le> c"
proof -
  have n: "0 < real (length xs)" using assms(1) by simp
  have "\<bar>sum_list xs\<bar> / real (length xs) \<le> c"
    using sum_list_abs_bound [OF assms(2)] n by (simp add: divide_le_eq mult.commute)
  then show ?thesis by (simp add: mean_def)
qed

lemma np_mean_ieee_fin:
  assumes "xs \<noteq> []" "\<forall>v \<in> set xs. \<bar>v\<bar> \<le> c" "real (length xs) * c \<le> DBL_MAX" "0 \<le> c"
    "c \<le> DBL_MAX"
  shows "np_mean_ieee (map Fin xs) = Fin (mean xs)"
proof -
  have "\<bar>mean xs\<bar> \<le> DBL_MAX" using mean_abs_bound [OF assms(1,2)] assms(5) by linarith
  then have "ieee (sum_list xs / real (length xs)) = Fin (mean xs)"
    by (simp add: ieee_fin mean_def)
  then show ?thesis
    using assms(1) by (simp add: np_mean_ieee_def ieee_sum_fin [OF assms(2,3,4)])
qed

text \<open>The bounds that keep every intermediate result of the kurtosis statement finite.\<close>

lemma range_bounds:
  assumes n: "1 \<le> n" and B: "1 \<le> B" and H: "n * (2 * B) ^ 4 * 10 ^ 10 \<le> DBL_MAX"
  shows "n * B \<le> DBL_MAX" "B \<le> DBL_MAX" "2 * B \<le> DBL_MAX"
    "(2 * B) ^ 2 \<le> DBL_MAX" "n * (2 * B) ^ 2 \<le> DBL_MAX"
    "(2 * B) ^ 4 \<le> DBL_MAX" "n * (2 * B) ^ 4 \<le> DBL_MAX"
    "(2 * B) ^ 4 + 1 / 10 ^ 10 \<le> DBL_MAX" "(2 * B) ^ 4 * 10 ^ 10 \<le> DBL_MAX"
proof -
  define D where "D = 2 * B"
  have D1: "1 \<le> D" using B by (simp add: D_def)
  have D12: "D \<le> D ^ 2" using D1 power_increasing [of 1 2 D] by simp
  have D24: "D ^ 2 \<le> D ^ 4" using D1 power_increasing [of 2 4 D] by simp
  have D4: "1 \<le> D ^ 4" using D1 by simp
  have "0 \<le> n * D ^ 4" using n D4 by simp
  then have "n * D ^ 4 * 1 \<le> n * D ^ 4 * 10 ^ 10"
    by (intro mult_left_mono) simp_all
  then have big: "n * D ^ 4 \<le> n * D ^ 4 * 10 ^ 10" by simp
  have nD4: "n * D ^ 4 \<le> DBL_MAX" using big H by (simp add: D_def)
  have m: "\<And>x. 0 \<le> x \<Longrightarrow> x \<le> n * x" using n by (simp add: mult_left_le_one_le mult_le_cancel_right1)
  have BD: "B \<le> D" using B by (simp add: D_def)
  have nn: "0 \<le> n" using n by simp
  show "n * (2 * B) ^ 4 \<le> DBL_MAX" using nD4 by (simp add: D_def)
  have "n * D ^ 2 \<le> n * D ^ 4" using D24 nn by (intro mult_left_mono)
  then have nD2: "n * D ^ 2 \<le> DBL_MAX" using nD4 by linarith
  then show "n * (2 * B) ^ 2 \<le> DBL_MAX" by (simp add: D_def)
  have "D ^ 2 \<le> n * D ^ 2" by (rule m) simp
  then show "(2 * B) ^ 2 \<le> DBL_MAX" using nD2 by (simp add: D_def)
  have "n * B \<le> n * D ^ 2" using BD D12 nn by (intro mult_left_mono) linarith+
  then show nB: "n * B \<le> DBL_MAX" using nD2 by linarith
  have "D \<le> n * D" by (rule m) (use D1 in simp)
  moreover have "n * D \<le> n * D ^ 2" using D12 nn by (intro mult_left_mono)
  ultimately have "D \<le> DBL_MAX" using nD2 by linarith
  then show "2 * B \<le> DBL_MAX" by (simp add: D_def)
  then show "B \<le> DBL_MAX" using B by linarith
  have "D ^ 4 \<le> n * D ^ 4" by (rule m) simp
  then show "(2 * B) ^ 4 \<le> DBL_MAX" using nD4 by (simp add: D_def)
  have "D ^ 4 * 10 ^ 10 \<le> n * (D ^ 4 * 10 ^ 10)" by (rule m) simp
  then show e: "(2 * B) ^ 4 * 10 ^ 10 \<le> DBL_MAX" using H by (simp add: D_def mult.assoc)
  have "D ^ 4 + 1 / 10 ^ 10 \<le> D ^ 4 * 10 ^ 10" using D4 by simp
  then show "(2 * B) ^ 4 + 1 / 10 ^ 10 \<le> DBL_MAX" using e by (simp add: D_def)
qed

lemma np_std_ieee_fin:
  assumes ne: "xs \<noteq> []" and b: "\<forall>v \<in> set xs. \<bar>v\<bar> \<le> B" and B: "1 \<le> B"
    and H: "real (length xs) * (2 * B) ^ 4 * 10 ^ 10 \<le> DBL_MAX"
  shows "np_std_ieee (map Fin xs) = Fin (std xs)"
proof -
  have n: "1 \<le> real (length xs)" using ne by (cases xs) simp_all
  note r = range_bounds [OF n B H]
  have B0: "0 \<le> B" using B by simp
  have mb: "\<bar>mean xs\<bar> \<le> B" by (rule mean_abs_bound [OF ne b])
  have arrmean: "ieee_div (ieee_sum (map Fin xs)) (Fin (real (length xs))) = Fin (mean xs)"
    using np_mean_ieee_fin [OF ne b r(1) B0 r(2)] by (simp add: np_mean_ieee_def)
  have dev: "\<And>v. v \<in> set xs \<Longrightarrow> \<bar>v - mean xs\<bar> \<le> 2 * B"
    using b mb by fastforce
  have sub: "\<And>v. v \<in> set xs \<Longrightarrow> ieee_sub (Fin v) (Fin (mean xs)) = Fin (v - mean xs)"
  proof -
    fix v assume "v \<in> set xs"
    then have "\<bar>v - mean xs\<bar> \<le> DBL_MAX" using dev [of v] r(3) by linarith
    then have "ieee (v - mean xs) = Fin (v - mean xs)" by (rule ieee_fin)
    then show "ieee_sub (Fin v) (Fin (mean xs)) = Fin (v - mean xs)"
      by (simp add: ieee_sub_def ieee_neg_def)
  qed
  have sq_le: "\<And>v. v \<in> set xs \<Longrightarrow> \<bar>(v - mean xs) ^ 2\<bar> \<le> (2 * B) ^ 2"
  proof -
    fix v assume "v \<in> set xs"
    then have "\<bar>v - mean xs\<bar> ^ 2 \<le> (2 * B) ^ 2"
      using dev by (intro power_mono) simp_all
    then show "\<bar>(v - mean xs) ^ 2\<bar> \<le> (2 * B) ^ 2" by simp
  qed
  have sq: "\<And>v. v \<in> set xs \<Longrightarrow> ieee_pow (Fin (v - mean xs)) 2 = Fin ((v - mean xs) ^ 2)"
  proof -
    fix v assume "v \<in> set xs"
    then have "\<bar>(v - mean xs) ^ 2\<bar> \<le> DBL_MAX" using sq_le [of v] r(4) by linarith
    then have "ieee ((v - mean xs) ^ 2) = Fin ((v - mean xs) ^ 2)" by (rule ieee_fin)
    then show "ieee_pow (Fin (v - mean xs)) 2 = Fin ((v - mean xs) ^ 2)"
      by (simp add: ieee_pow_def)
  qed
  have x: "map (\<lambda>v. ieee_pow v 2) (map (\<lambda>v. ieee_sub v (Fin (mean xs))) (map Fin xs))
      = map Fin (map (\<lambda>v. (v - mean xs) ^ 2) xs)"
    using sub sq by simp
  have sqs: "\<forall>w \<in> set (map (\<lambda>v. (v - mean xs) ^ 2) xs). \<bar>w\<bar> \<le> (2 * B) ^ 2"
    using sq_le by auto
  have ne2: "map (\<lambda>v. (v - mean xs) ^ 2) xs \<noteq> []" using ne by simp
  have "np_mean_ieee (map Fin (map (\<lambda>v. (v - mean xs) ^ 2) xs))
      = Fin (mean (map (\<lambda>v. (v - mean xs) ^ 2) xs))"
    using np_mean_ieee_fin [OF ne2 sqs _ _ r(4)] r(5) by simp
  then have ret: "ieee_div (ieee_sum (map Fin (map (\<lambda>v. (v - mean xs) ^ 2) xs)))
        (Fin (real (length xs))) = Fin (mean (map (\<lambda>v. (v - mean xs) ^ 2) xs))"
    by (simp add: np_mean_ieee_def)
  have nonneg: "0 \<le> mean (map (\<lambda>v. (v - mean xs) ^ 2) xs)"
    by (rule mean_nonneg) simp
  have s: "std xs = sqrt (mean (map (\<lambda>v. (v - mean xs) ^ 2) xs))"
    by (simp add: std_def)
  have "np_std_ieee (map Fin xs) = ieee_sqrt (Fin (mean (map (\<lambda>v. (v - mean xs) ^ 2) xs)))"
    by (simp only: np_std_ieee_def Let_def length_map arrmean x ret)
  also have "\<dots> = Fin (std xs)" using nonneg by (simp add: ieee_sqrt_def s)
  finally show ?thesis .
qed

lemma std_le:
  assumes ne: "xs \<noteq> []" and b: "\<forall>v \<in> set xs. \<bar>v\<bar> \<le> B"
  shows "std xs \<le> 2 * B"
proof -
  have mb: "\<bar>mean xs\<bar> \<le> B" by (rule mean_abs_bound [OF ne b])
  have B0: "0 \<le> B" using mb by linarith
  have dev: "\<And>v. v \<in> set xs \<Longrightarrow> \<bar>v - mean xs\<bar> \<le> 2 * B"
    using b mb by fastforce
  have "\<forall>w \<in> set (map (\<lambda>v. \<bar>v - mean xs\<bar> ^ 2) xs). \<bar>w\<bar> \<le> (2 * B) ^ 2"
  proof
    fix w assume "w \<in> set (map (\<lambda>v. \<bar>v - mean xs\<bar> ^ 2) xs)"
    then obtain v where v: "v \<in> set xs" "w = \<bar>v - mean xs\<bar> ^ 2" by auto
    have "\<bar>v - mean xs\<bar> ^ 2 \<le> (2 * B) ^ 2" using dev [OF v(1)] by (intro power_mono) simp_all
    then show "\<bar>w\<bar> \<le> (2 * B) ^ 2" using v(2) by simp
  qed
  then have "\<bar>mean (map (\<lambda>v. \<bar>v - mean xs\<bar> ^ 2) xs)\<bar> \<le> (2 * B) ^ 2"
    using ne by (intro mean_abs_bound) simp_all
  then have "mean (map (\<lambda>v. \<bar>v - mean xs\<bar> ^ 2) xs) \<le> (2 * B) ^ 2" by linarith
  then have e1: "std xs \<le> sqrt ((2 * B) ^ 2)" unfolding std_def by (rule real_sqrt_le_mono)
  have e2: "sqrt ((2 * B) ^ 2) = \<bar>2 * B\<bar>" by (rule real_sqrt_abs)
  have e3: "\<bar>2 * B\<bar> = 2 * B" using B0 by simp
  from e1 e2 e3 show ?thesis by (simp only:)
qed

lemma fakeprint_kurtosis_ieee_fin:
  assumes ne: "xs \<noteq> []" and b: "\<forall>v \<in> set xs. \<bar>v\<bar> \<le> B" and B: "1 \<le> B"
    and H: "real (length xs) * (2 * B) ^ 4 * 10 ^ 10 \<le> DBL_MAX"
  shows "fakeprint_kurtosis_ieee (map Fin xs) = Inr (spec_kurtosis xs)"
proof -
  have n: "1 \<le> real (length xs)" using ne by (cases xs) simp_all
  note r = range_bounds [OF n B H]
  have B0: "0 \<le> B" using B by simp
  have mb: "\<bar>mean xs\<bar> \<le> B" by (rule mean_abs_bound [OF ne b])
  have fm: "nan_to_num (np_mean_ieee (map Fin xs)) = mean xs"
    using np_mean_ieee_fin [OF ne b r(1) B0 r(2)] by (simp add: nan_to_num_def)
  have fs: "nan_to_num (np_std_ieee (map Fin xs)) = std xs"
    using np_std_ieee_fin [OF ne b B H] by (simp add: nan_to_num_def)
  have dev: "\<And>v. v \<in> set xs \<Longrightarrow> \<bar>v - mean xs\<bar> \<le> 2 * B"
    using b mb by fastforce
  have sub: "\<And>v. v \<in> set xs \<Longrightarrow> ieee_sub (Fin v) (Fin (mean xs)) = Fin (v - mean xs)"
  proof -
    fix v assume "v \<in> set xs"
    then have "\<bar>v - mean xs\<bar> \<le> DBL_MAX" using dev [of v] r(3) by linarith
    then have "ieee (v - mean xs) = Fin (v - mean xs)" by (rule ieee_fin)
    then show "ieee_sub (Fin v) (Fin (mean xs)) = Fin (v - mean xs)"
      by (simp add: ieee_sub_def ieee_neg_def)
  qed
  have p4_le: "\<And>v. v \<in> set xs \<Longrightarrow> \<bar>(v - mean xs) ^ 4\<bar> \<le> (2 * B) ^ 4"
  proof -
    fix v assume "v \<in> set xs"
    then have "\<bar>v - mean xs\<bar> ^ 4 \<le> (2 * B) ^ 4"
      using dev by (intro power_mono) simp_all
    then show "\<bar>(v - mean xs) ^ 4\<bar> \<le> (2 * B) ^ 4" by (simp add: power_abs)
  qed
  have p4: "\<And>v. v \<in> set xs \<Longrightarrow> ieee_pow (Fin (v - mean xs)) 4 = Fin ((v - mean xs) ^ 4)"
  proof -
    fix v assume "v \<in> set xs"
    then have "\<bar>(v - mean xs) ^ 4\<bar> \<le> DBL_MAX" using p4_le [of v] r(6) by linarith
    then have "ieee ((v - mean xs) ^ 4) = Fin ((v - mean xs) ^ 4)" by (rule ieee_fin)
    then show "ieee_pow (Fin (v - mean xs)) 4 = Fin ((v - mean xs) ^ 4)"
      by (simp add: ieee_pow_def)
  qed
  have x: "map (\<lambda>v. ieee_pow (ieee_sub v (Fin (mean xs))) 4) (map Fin xs)
      = map Fin (map (\<lambda>v. (v - mean xs) ^ 4) xs)"
    using sub p4 by simp
  have p4s: "\<forall>w \<in> set (map (\<lambda>v. (v - mean xs) ^ 4) xs). \<bar>w\<bar> \<le> (2 * B) ^ 4"
    using p4_le by auto
  have ne4: "map (\<lambda>v. (v - mean xs) ^ 4) xs \<noteq> []" using ne by simp
  define m4 where "m4 = mean (map (\<lambda>v. (v - mean xs) ^ 4) xs)"
  have num: "np_mean_ieee (map Fin (map (\<lambda>v. (v - mean xs) ^ 4) xs)) = Fin m4"
    unfolding m4_def using np_mean_ieee_fin [OF ne4 p4s _ _ r(6)] r(7) by simp
  have m4_le: "m4 \<le> (2 * B) ^ 4"
    using mean_abs_bound [OF ne4 p4s] unfolding m4_def by linarith
  have m4_0: "0 \<le> m4" unfolding m4_def by (rule mean_nonneg) simp
  have s0: "0 \<le> std xs" by (rule std_nonneg)
  have "std xs ^ 4 \<le> (2 * B) ^ 4" using std_le [OF ne b] s0 by (intro power_mono)
  then have s4: "std xs ^ 4 \<le> DBL_MAX" and s4e: "std xs ^ 4 + 1 / 10 ^ 10 \<le> DBL_MAX"
    using r(6) r(8) by linarith+
  have s40: "0 \<le> std xs ^ 4" by simp
  have fp: "float_pow (std xs) 4 = Inr (std xs ^ 4)"
    using s4 s40 by (simp add: float_pow_def)
  have den: "ieee (std xs ^ 4 + 1 / 10 ^ 10) = Fin (std xs ^ 4 + 1 / 10 ^ 10)"
    using s4e s40 by (intro ieee_fin) simp
  have dpos: "1 / 10 ^ 10 \<le> std xs ^ 4 + 1 / 10 ^ 10" using s40 by simp
  have d0: "0 < std xs ^ 4 + 1 / 10 ^ 10" by (intro add_nonneg_pos) simp_all
  then have pp: "0 < (std xs ^ 4 + 1 / 10 ^ 10) * (1 / 10 ^ 10)"
    by (intro mult_pos_pos) simp_all
  have "m4 / (std xs ^ 4 + 1 / 10 ^ 10) \<le> m4 / (1 / 10 ^ 10)"
    by (rule divide_left_mono [OF dpos m4_0 pp])
  also have "\<dots> = m4 * 10 ^ 10" by simp
  also have "\<dots> \<le> (2 * B) ^ 4 * 10 ^ 10" using m4_le by simp
  finally have q_le: "m4 / (std xs ^ 4 + 1 / 10 ^ 10) \<le> DBL_MAX" using r(9) by linarith
  have q_0: "0 \<le> m4 / (std xs ^ 4 + 1 / 10 ^ 10)"
    using m4_0 d0 by (intro divide_nonneg_nonneg) simp_all
  have dne: "std xs ^ 4 + 1 / 10 ^ 10 \<noteq> 0" using d0 by (rule less_imp_neq [symmetric])
  have quot: "ieee_div (Fin m4) (Fin (std xs ^ 4 + 1 / 10 ^ 10))
      = Fin (m4 / (std xs ^ 4 + 1 / 10 ^ 10))"
    using q_le q_0 dne by (simp add: ieee_fin)
  have kq: "kurtosis_quotient_ieee (map Fin xs) (mean xs) (std xs)
      = Inr (Fin (m4 / (std xs ^ 4 + 1 / 10 ^ 10)))"
    by (simp only: kurtosis_quotient_ieee_def Let_def x num fp den quot sum.case)
  have sk: "spec_kurtosis xs = m4 / (std xs ^ 4 + 1 / 10 ^ 10)"
    by (simp add: spec_kurtosis_def m4_def)
  have "fakeprint_kurtosis_ieee (map Fin xs)
      = Inr (nan_to_num (Fin (m4 / (std xs ^ 4 + 1 / 10 ^ 10))))"
    using ne by (simp add: fakeprint_kurtosis_ieee_def Let_def fm fs kq)
  then show ?thesis by (simp add: nan_to_num_def sk)
qed

text \<open>A NaN among the entries of the fakeprint makes the quotient NaN.\<close>

lemma foldl_ieee_add_NaN_start: "foldl ieee_add NaN xs = NaN"
  by (induction xs) simp_all

lemma ieee_add_NaN_right: "ieee_add a NaN = NaN"
  by (cases a) simp_all

lemma foldl_ieee_add_NaN:
  assumes "NaN \<in> set xs"
  shows "foldl ieee_add a xs = NaN"
  using assms
proof (induction xs arbitrary: a)
  case Nil
  then show ?case by simp
next
  case (Cons v xs)
  show ?case
  proof (cases "v = NaN")
    case True
    then show ?thesis by (simp add: ieee_add_NaN_right foldl_ieee_add_NaN_start)
  next
    case False
    then have "NaN \<in> set xs" using Cons.prems by simp
    then show ?thesis using Cons.IH by simp
  qed
qed

lemma ieee_sum_NaN: "NaN \<in> set xs \<Longrightarrow> ieee_sum xs = NaN"
  by (simp add: ieee_sum_def foldl_ieee_add_NaN)

lemma np_mean_ieee_NaN: "NaN \<in> set xs \<Longrightarrow> np_mean_ieee xs = NaN"
  by (simp add: np_mean_ieee_def ieee_sum_NaN)

lemma ieee_sub_NaN: "ieee_sub NaN b = NaN" "ieee_sub a NaN = NaN"
  by (simp_all add: ieee_sub_def ieee_neg_def ieee_add_NaN_right)

lemma np_std_ieee_NaN:
  assumes "NaN \<in> set xs"
  shows "np_std_ieee xs = NaN"
proof -
  have "NaN \<in> set (map (\<lambda>v. ieee_pow v 2) (map (\<lambda>v. ieee_sub v NaN) xs))"
    using assms by (auto simp: ieee_sub_NaN ieee_pow_def image_iff)
  then show ?thesis
    using assms by (simp add: np_std_ieee_def Let_def ieee_sum_NaN ieee_sqrt_def)
qed

lemma fakeprint_kurtosis_ieee_NaN:
  assumes "NaN \<in> set xs"
  shows "kurtosis_quotient_ieee xs (nan_to_num (np_mean_ieee xs)) (nan_to_num (np_std_ieee xs))
           = Inr NaN"
    and "fakeprint_kurtosis_ieee xs = Inr 0"
proof -
  have ne: "xs \<noteq> []" using assms by auto
  have "ieee_pow (ieee_sub NaN (Fin 0)) 4 = NaN" by (simp add: ieee_sub_NaN ieee_pow_def)
  then have "NaN \<in> set (map (\<lambda>v. ieee_pow (ieee_sub v (Fin 0)) 4) xs)"
    using assms by (auto simp: image_iff intro!: bexI [of _ NaN])
  then have num: "np_mean_ieee (map (\<lambda>v. ieee_pow (ieee_sub v (Fin 0)) 4) xs) = NaN"
    by (rule np_mean_ieee_NaN)
  have fp: "float_pow 0 4 = Inr 0" using DBL_MAX_pos by (simp add: float_pow_def)
  show q: "kurtosis_quotient_ieee xs (nan_to_num (np_mean_ieee xs))
      (nan_to_num (np_std_ieee xs)) = Inr NaN"
    by (simp add: kurtosis_quotient_ieee_def Let_def np_mean_ieee_NaN [OF assms]
        np_std_ieee_NaN [OF assms] nan_to_num_def num fp)
  have "fakeprint_kurtosis_ieee xs = Inr (nan_to_num NaN)"
    using ne q by (simp add: fakeprint_kurtosis_ieee_def Let_def)
  then show "fakeprint_kurtosis_ieee xs = Inr 0" by (simp add: nan_to_num_def)
qed

text \<open>
  Claim C8, as amended. For every non-empty fakeprint vector \<open>x\<close> of finite values the
  kurtosis-like statistic that the feature extractor computes equals
  \<open>mean((x - mean)^4) / (std^4 + 1e-10)\<close>, with no offset of \<open>-3\<close> (it is the fourth
  central moment over the squared variance plus \<open>1e-10\<close>, and never negative); with the
  range of the doubles taken into account this holds whenever the entries are bounded by some
  \<open>B \<ge> 1\<close> with \<open>len(x) * (2 * B)^4 * 1e10\<close> in that range, so that no intermediate
  result overflows. On the empty vector no statistic is computed: \<open>np.max\<close> raises
  \<open>ValueError\<close> before the kurtosis statement is reached. A NaN quotient (as for a vector
  with a NaN entry) is replaced by 0, but an infinite quotient is not: it is replaced by the
  largest finite double.
\<close>

theorem kurtosis_formula:
  "(x \<noteq> [] \<longrightarrow> (\<exists>ft. extract_features x extra_features = Inr ft
                      \<and> ft_kurtosis ft = spec_kurtosis x))
   \<and> spec_kurtosis x
       = mean (map (\<lambda>v. (v - mean x) ^ 4) x)
         / ((mean (map (\<lambda>v. (v - mean x) ^ 2) x)) ^ 2 + 1 / 10 ^ 10)
   \<and> 0 \<le> spec_kurtosis x
   \<and> (x \<noteq> [] \<and> (\<forall>v \<in> set x. \<bar>v\<bar> \<le> B) \<and> 1 \<le> B
        \<and> real (length x) * (2 * B) ^ 4 * 10 ^ 10 \<le> DBL_MAX
        \<longrightarrow> fakeprint_kurtosis_ieee (map Fin x) = Inr (spec_kurtosis x))
   \<and> extract_features [] extra_features = Inl ValueError
   \<and> fakeprint_kurtosis_ieee [] = Inl ValueError
   \<and> (NaN \<in> set xs
        \<longrightarrow> kurtosis_quotient_ieee xs (nan_to_num (np_mean_ieee xs))
              (nan_to_num (np_std_ieee xs)) = Inr NaN
          \<and> fakeprint_kurtosis_ieee xs = Inr 0)
   \<and> (xs \<noteq> [] \<and> kurtosis_quotient_ieee xs (nan_to_num (np_mean_ieee xs))
                    (nan_to_num (np_std_ieee xs)) = Inr PInf
        \<longrightarrow> fakeprint_kurtosis_ieee xs = Inr DBL_MAX)
   \<and> nan_to_num NaN = 0 \<and> nan_to_num PInf = DBL_MAX \<and> 0 < DBL_MAX"
proof -
  have pos: "0 < std x ^ 4 + 1 / 10 ^ 10"
    by (intro add_nonneg_pos) simp_all
  have a: "x \<noteq> [] \<longrightarrow> (\<exists>ft. extract_features x extra_features = Inr ft
                      \<and> ft_kurtosis ft = spec_kurtosis x)"
  proof
    assume ne: "x \<noteq> []"
    from extract_features_total [OF ne] obtain ft
      where ft: "extract_features x extra_features = Inr ft" by blast
    have "kurtosis_stat x (nan_to_num (np_mean x)) (nan_to_num (np_std x))
        = nan_to_num (Fin (spec_kurtosis x))"
      unfolding kurtosis_stat_def kurtosis_raw_value using ne by simp
    then have "ft_kurtosis ft = spec_kurtosis x"
      using extract_features_kurtosis [OF ft] by (simp add: nan_to_num_def)
    with ft show "\<exists>ft. extract_features x extra_features = Inr ft
                      \<and> ft_kurtosis ft = spec_kurtosis x" by blast
  qed
  have b: "spec_kurtosis x
         = mean (map (\<lambda>v. (v - mean x) ^ 4) x)
           / ((mean (map (\<lambda>v. (v - mean x) ^ 2) x)) ^ 2 + 1 / 10 ^ 10)"
    by (simp add: spec_kurtosis_def std_pow4)
  have "0 \<le> mean (map (\<lambda>v. (v - mean x) ^ 4) x)"
    by (rule mean_nonneg) simp
  then have c: "0 \<le> spec_kurtosis x"
    unfolding spec_kurtosis_def using pos by (intro divide_nonneg_nonneg) simp_all
  have d: "x \<noteq> [] \<and> (\<forall>v \<in> set x. \<bar>v\<bar> \<le> B) \<and> 1 \<le> B
        \<and> real (length x) * (2 * B) ^ 4 * 10 ^ 10 \<le> DBL_MAX
        \<longrightarrow> fakeprint_kurtosis_ieee (map Fin x) = Inr (spec_kurtosis x)"
    using fakeprint_kurtosis_ieee_fin [of x B] by blast
  have e: "extract_features [] extra_features = Inl ValueError"
    by (simp add: extract_features_def Let_def split: prod.splits)
  have f: "fakeprint_kurtosis_ieee [] = Inl ValueError"
    by (simp add: fakeprint_kurtosis_ieee_def Let_def)
  have g: "NaN \<in> set xs
        \<longrightarrow> kurtosis_quotient_ieee xs (nan_to_num (np_mean_ieee xs))
              (nan_to_num (np_std_ieee xs)) = Inr NaN
          \<and> fakeprint_kurtosis_ieee xs = Inr 0"
    using fakeprint_kurtosis_ieee_NaN [of xs] by blast
  have h: "xs \<noteq> [] \<and> kurtosis_quotient_ieee xs (nan_to_num (np_mean_ieee xs))
                    (nan_to_num (np_std_ieee xs)) = Inr PInf
        \<longrightarrow> fakeprint_kurtosis_ieee xs = Inr DBL_MAX"
  proof
    assume q: "xs \<noteq> [] \<and> kurtosis_quotient_ieee xs (nan_to_num (np_mean_ieee xs))
                    (nan_to_num (np_std_ieee xs)) = Inr PInf"
    then have "fakeprint_kurtosis_ieee xs = Inr (nan_to_num PInf)"
      by (simp add: fakeprint_kurtosis_ieee_def Let_def)
    then show "fakeprint_kurtosis_ieee xs = Inr DBL_MAX" by (simp add: nan_to_num_def)
  qed
  have i: "nan_to_num NaN = 0" "nan_to_num PInf = DBL_MAX" "0 < DBL_MAX"
    by (simp_all add: nan_to_num_def DBL_MAX_pos)
  from a b c d e f g h i show ?thesis by (intro conjI)
qed

theorem kurtosis_formula_witness:
  "[0, 1] \<noteq> ([] :: real list)
   \<and> (\<exists>ft. extract_features [0, 1] Map.empty = Inr ft
          \<and> ft_kurtosis ft = (1 / 16) / (1 / 16 + 1 / 10 ^ 10))
   \<and> fakeprint_kurtosis_ieee [Fin 0, Fin 1] = Inr ((1 / 16) / (1 / 16 + 1 / 10 ^ 10))
   \<and> NaN \<in> set [Fin 0, NaN]
   \<and> kurtosis_quotient_ieee [Fin 0, NaN] (nan_to_num (np_mean_ieee [Fin 0, NaN]))
        (nan_to_num (np_std_ieee [Fin 0, NaN])) = Inr NaN
   \<and> fakeprint_kurtosis_ieee [Fin 0, NaN] = Inr 0"
proof -
  note t = kurtosis_formula [of "[0, 1]" Map.empty 1 "[Fin 0, NaN]"]
  have ne: "[0, 1] \<noteq> ([] :: real list)" by simp
  have v: "mean (map (\<lambda>v. (v - mean [0, 1]) ^ 4) [0, 1])
       / ((mean (map (\<lambda>v. (v - mean [0, 1]) ^ 2) [0, 1])) ^ 2 + 1 / 10 ^ 10)
     = (1 / 16) / (1 / 16 + 1 / 10 ^ 10)"
    by (simp add: mean_def power_divide)
  from t have "spec_kurtosis [0, 1]
       = mean (map (\<lambda>v. (v - mean [0, 1]) ^ 4) [0, 1])
         / ((mean (map (\<lambda>v. (v - mean [0, 1]) ^ 2) [0, 1])) ^ 2 + 1 / 10 ^ 10)"
    by (rule conjunct2 [THEN conjunct1])
  then have s: "spec_kurtosis [0, 1] = (1 / 16) / (1 / 16 + 1 / 10 ^ 10)"
    by (simp only: v)
  from t ne have "\<exists>ft. extract_features [0, 1] Map.empty = Inr ft
      \<and> ft_kurtosis ft = spec_kurtosis [0, 1]"
    by blast
  then have e: "\<exists>ft. extract_features [0, 1] Map.empty = Inr ft
      \<and> ft_kurtosis ft = (1 / 16) / (1 / 16 + 1 / 10 ^ 10)"
    by (simp only: s)
  have bnd: "\<forall>v \<in> set [0, 1 :: real]. \<bar>v\<bar> \<le> 1" by simp
  have one: "(1 :: real) \<le> 1" by simp
  have rng: "real (length [0, 1 :: real]) * (2 * 1) ^ 4 * 10 ^ 10 \<le> DBL_MAX"
    by (simp add: DBL_MAX_def)
  from t ne bnd one rng
  have "fakeprint_kurtosis_ieee (map Fin [0, 1]) = Inr (spec_kurtosis [0, 1])"
    by blast
  then have k: "fakeprint_kurtosis_ieee [Fin 0, Fin 1] = Inr ((1 / 16) / (1 / 16 + 1 / 10 ^ 10))"
    by (simp only: s list.map)
  have mem: "NaN \<in> set [Fin 0, NaN]" by simp
  from t mem
  have n: "kurtosis_quotient_ieee [Fin 0, NaN] (nan_to_num (np_mean_ieee [Fin 0, NaN]))
        (nan_to_num (np_std_ieee [Fin 0, NaN])) = Inr NaN
     \<and> fakeprint_kurtosis_ieee [Fin 0, NaN] = Inr 0"
    by blast
  from ne e k mem n show ?thesis by (intro conjI) blast+
qed

text \<open>
  The claim as stated fails where the quotient is infinite. On \<open>[0, 2.2e77]\<close> mean and
  standard deviation are \<open>1.1e77\<close>, the two fourth powers \<open>1.4641e308\<close> are doubles but
  their sum is not, so the quotient is \<open>inf\<close> and the statistic the largest finite double,
  not 0; the same on a vector with an infinite entry. On \<open>[0, 4e77]\<close> the fourth power of
  the standard deviation \<open>2e77\<close> overflows and \<open>fakeprint_std**4\<close> raises; on the empty
  vector \<open>np.max\<close> raises.
\<close>

theorem kurtosis_infinite_counterexample:
  "nan_to_num (np_mean_ieee [Fin 0, Fin (22 * 10 ^ 76)]) = 11 * 10 ^ 76
   \<and> nan_to_num (np_std_ieee [Fin 0, Fin (22 * 10 ^ 76)]) = 11 * 10 ^ 76
   \<and> kurtosis_quotient_ieee [Fin 0, Fin (22 * 10 ^ 76)] (11 * 10 ^ 76) (11 * 10 ^ 76) = Inr PInf
   \<and> fakeprint_kurtosis_ieee [Fin 0, Fin (22 * 10 ^ 76)] = Inr DBL_MAX
   \<and> 0 < DBL_MAX
   \<and> fakeprint_kurtosis_ieee [PInf] = Inr DBL_MAX
   \<and> fakeprint_kurtosis_ieee [Fin 0, Fin (4 * 10 ^ 77)] = Inl OverflowError
   \<and> fakeprint_kurtosis_ieee [] = Inl ValueError"
proof -
  have sq11: "sqrt ((11 * 10 ^ 76) ^ 2) = 11 * 10 ^ 76"
    by (simp only: real_sqrt_abs) simp
  have sq2: "sqrt ((2 * 10 ^ 77) ^ 2) = 2 * 10 ^ 77"
    by (simp only: real_sqrt_abs) simp
  have m: "np_mean_ieee [Fin 0, Fin (22 * 10 ^ 76)] = Fin (11 * 10 ^ 76)"
    by (simp add: np_mean_ieee_def ieee_sum_def ieee_def DBL_MAX_def)
  have "np_std_ieee [Fin 0, Fin (22 * 10 ^ 76)] = Fin (sqrt ((11 * 10 ^ 76) ^ 2))"
    by (simp add: np_std_ieee_def Let_def ieee_sum_def ieee_sub_def ieee_neg_def ieee_pow_def
        ieee_sqrt_def ieee_def DBL_MAX_def)
  then have s: "np_std_ieee [Fin 0, Fin (22 * 10 ^ 76)] = Fin (11 * 10 ^ 76)"
    by (simp only: sq11)
  have a: "nan_to_num (np_mean_ieee [Fin 0, Fin (22 * 10 ^ 76)]) = 11 * 10 ^ 76"
    by (simp only: m) (simp add: nan_to_num_def)
  have b: "nan_to_num (np_std_ieee [Fin 0, Fin (22 * 10 ^ 76)]) = 11 * 10 ^ 76"
    by (simp only: s) (simp add: nan_to_num_def)
  have c: "kurtosis_quotient_ieee [Fin 0, Fin (22 * 10 ^ 76)] (11 * 10 ^ 76) (11 * 10 ^ 76)
      = Inr PInf"
    by (simp add: kurtosis_quotient_ieee_def Let_def np_mean_ieee_def ieee_sum_def ieee_sub_def
        ieee_neg_def ieee_pow_def float_pow_def ieee_def DBL_MAX_def)
  have "fakeprint_kurtosis_ieee [Fin 0, Fin (22 * 10 ^ 76)] = Inr (nan_to_num PInf)"
    by (simp only: fakeprint_kurtosis_ieee_def Let_def a b c) simp
  then have d: "fakeprint_kurtosis_ieee [Fin 0, Fin (22 * 10 ^ 76)] = Inr DBL_MAX"
    by (simp add: nan_to_num_def)
  have e: "0 < DBL_MAX" by (simp add: DBL_MAX_def)
  have m1: "nan_to_num (np_mean_ieee [PInf]) = DBL_MAX"
    by (simp add: np_mean_ieee_def ieee_sum_def nan_to_num_def)
  have s1: "nan_to_num (np_std_ieee [PInf]) = 0"
    by (simp add: np_std_ieee_def Let_def ieee_sum_def ieee_sub_def ieee_neg_def ieee_pow_def
        ieee_sqrt_def nan_to_num_def)
  have q1: "kurtosis_quotient_ieee [PInf] DBL_MAX 0 = Inr PInf"
    by (simp add: kurtosis_quotient_ieee_def Let_def np_mean_ieee_def ieee_sum_def
        ieee_sub_def ieee_neg_def ieee_pow_def float_pow_def ieee_def DBL_MAX_def)
  have "fakeprint_kurtosis_ieee [PInf] = Inr (nan_to_num PInf)"
    by (simp only: fakeprint_kurtosis_ieee_def Let_def m1 s1 q1) simp
  then have f: "fakeprint_kurtosis_ieee [PInf] = Inr DBL_MAX"
    by (simp add: nan_to_num_def)
  have m2: "np_mean_ieee [Fin 0, Fin (4 * 10 ^ 77)] = Fin (2 * 10 ^ 77)"
    by (simp add: np_mean_ieee_def ieee_sum_def ieee_def DBL_MAX_def)
  have "np_std_ieee [Fin 0, Fin (4 * 10 ^ 77)] = Fin (sqrt ((2 * 10 ^ 77) ^ 2))"
    by (simp add: np_std_ieee_def Let_def ieee_sum_def ieee_sub_def ieee_neg_def ieee_pow_def
        ieee_sqrt_def ieee_def DBL_MAX_def)
  then have s2: "np_std_ieee [Fin 0, Fin (4 * 10 ^ 77)] = Fin (2 * 10 ^ 77)"
    by (simp only: sq2)
  have a2: "nan_to_num (np_mean_ieee [Fin 0, Fin (4 * 10 ^ 77)]) = 2 * 10 ^ 77"
    by (simp only: m2) (simp add: nan_to_num_def)
  have b2: "nan_to_num (np_std_ieee [Fin 0, Fin (4 * 10 ^ 77)]) = 2 * 10 ^ 77"
    by (simp only: s2) (simp add: nan_to_num_def)
  have q2: "kurtosis_quotient_ieee [Fin 0, Fin (4 * 10 ^ 77)] (2 * 10 ^ 77) (2 * 10 ^ 77)
      = Inl OverflowError"
    by (simp add: kurtosis_quotient_ieee_def Let_def float_pow_def DBL_MAX_def)
  have g: "fakeprint_kurtosis_ieee [Fin 0, Fin (4 * 10 ^ 77)] = Inl OverflowError"
    by (simp only: fakeprint_kurtosis_ieee_def Let_def a2 b2 q2) simp
  have h: "fakeprint_kurtosis_ieee [] = Inl ValueError"
    by (simp add: fakeprint_kurtosis_ieee_def Let_def)
  from a b c d e f g h show ?thesis by (intro conjI)
qed

section \<open>Loading a model\<close>

text \<open>
  Claim C2, as amended. Constructing the detector with no model path, with an empty path or
  with a path for which \<open>os.path.exists\<close> is false does not raise and leaves the facade
  in Untrained mode: no model, \<open>is_trained = False\<close>. Nothing is claimed for a path at
  which something exists that cannot be opened or does not unpickle.
\<close>

theorem init_missing_model_untrained:
  assumes "model_path = None \<or> model_path = Some []
     \<or> (\<exists>p. model_path = Some p \<and> path_exists fs p = False)"
  shows "ai_detector_init fs pickle_load model_path =
     Inr \<lparr> analyzer = new_audio_analyzer, model = None, is_trained = False \<rparr>"
  using assms by (auto simp: ai_detector_init_def)

theorem init_missing_model_untrained_witness:
  "(Some ''./models/detector.pkl'' = None \<or> Some ''./models/detector.pkl'' = Some []
      \<or> (\<exists>p. Some ''./models/detector.pkl'' = Some p
             \<and> path_exists [''./models'' \<mapsto> Directory] p = False))
   \<and> ai_detector_init [''./models'' \<mapsto> Directory] reject_pickle (Some ''./models/detector.pkl'') =
       Inr \<lparr> analyzer = new_audio_analyzer, model = None, is_trained = False \<rparr>"
proof -
  have h: "Some ''./models/detector.pkl'' = None \<or> Some ''./models/detector.pkl'' = Some []
      \<or> (\<exists>p. Some ''./models/detector.pkl'' = Some p
             \<and> path_exists [''./models'' \<mapsto> Directory] p = False)"
    by (simp add: path_exists_def)
  from h init_missing_model_untrained [OF h, of reject_pickle] show ?thesis by (rule conjI)
qed

text \<open>
  The claim as it stands fails whenever something exists at the path and loading fails: for a
  corrupt file \<open>pickle.load\<close> raises, for a directory and for an unreadable file
  \<open>open\<close> raises, and the exception leaves the constructor. A direct call of
  \<open>load_model\<close> on a missing file raises as well.
\<close>

theorem init_corrupt_model_counterexample:
  "ai_detector_init [''detector.pkl'' \<mapsto> RegularFile ''garbage''] reject_pickle
        (Some ''detector.pkl'')
     = Inl UnpicklingError
   \<and> ai_detector_init [''models'' \<mapsto> Directory] reject_pickle (Some ''models'')
     = Inl IsADirectoryError
   \<and> ai_detector_init [''detector.pkl'' \<mapsto> Unreadable] reject_pickle (Some ''detector.pkl'')
     = Inl PermissionError
   \<and> load_model Map.empty reject_pickle
        \<lparr> analyzer = new_audio_analyzer, model = None, is_trained = False \<rparr> ''detector.pkl''
     = Inl FileNotFoundError"
  by (simp add: ai_detector_init_def load_model_def open_rb_def path_exists_def reject_pickle_def)

section \<open>The batch endpoint\<close>

lemma batch_loop_filter:
  "batch_loop env files results =
     results @ map (batch_item env) (filter (\<lambda>f. \<not> skipped env f) files)"
  by (induction files arbitrary: results) simp_all

text \<open>
  Claim C7, as amended. For every non-empty batch the endpoint answers with status 200; the
  result list has one entry, in order, for every file that the guard does not skip (a file
  with a non-empty name and an allowed extension); a failure while saving or analysing a
  file is caught and recorded without aborting the remaining files: the entry of a file has
  status \<open>success\<close> when its analysis returns, and status \<open>error\<close> with the message when
  it raises; \<open>total\<close> is the number of entries. Scenario D is the witness below.
\<close>

theorem batch_results_in_order:
  assumes "files \<noteq> []"
  shows "batch_analyze env files =
       BatchOk (length (filter (\<lambda>f. \<not> skipped env f) files))
               (map (batch_item env) (filter (\<lambda>f. \<not> skipped env f) files))
     \<and> (\<forall>f r. env_save_and_predict env f (temp_path env f) = Inr r
            \<longrightarrow> batch_item env f ''status'' = Some (JStr ''success''))
     \<and> (\<forall>f e. env_save_and_predict env f (temp_path env f) = Inl e
            \<longrightarrow> batch_item env f ''status'' = Some (JStr ''error'')
              \<and> batch_item env f ''error'' = Some (JStr e))"
  using assms by (simp add: batch_analyze_def batch_loop_filter batch_item_def Let_def)

lemmas demo_defs = demo_env_def demo_predict_def skipped_def allowed_file_def
  ALLOWED_EXTENSIONS_def rsplit_dot_last_def ascii_lower_def batch_item_def temp_path_def

theorem batch_results_in_order_witness:
  "[\<lparr>filename = ''a.mp3'', content = True\<rparr>, \<lparr>filename = ''b.mp3'', content = False\<rparr>,
    \<lparr>filename = ''c.mp3'', content = True\<rparr>] \<noteq> []
   \<and> (\<exists>r1 r2 r3.
        batch_analyze demo_env
          [\<lparr>filename = ''a.mp3'', content = True\<rparr>, \<lparr>filename = ''b.mp3'', content = False\<rparr>,
           \<lparr>filename = ''c.mp3'', content = True\<rparr>] = BatchOk 3 [r1, r2, r3]
        \<and> r1 ''status'' = Some (JStr ''success'')
        \<and> r2 ''status'' = Some (JStr ''error'') \<and> r2 ''error'' = Some (JStr ''corrupt'')
        \<and> r3 ''status'' = Some (JStr ''success''))"
  using batch_results_in_order [of "[\<lparr>filename = ''a.mp3'', content = True\<rparr>,
      \<lparr>filename = ''b.mp3'', content = False\<rparr>, \<lparr>filename = ''c.mp3'', content = True\<rparr>]" demo_env]
  by (simp add: demo_defs)

theorem batch_skips_file_counterexample:
  "batch_analyze demo_env [\<lparr>filename = ''notes.txt'', content = True\<rparr>] = BatchOk 0 []"
  by (simp add: batch_analyze_def demo_defs)

section \<open>The heuristic on a silent fakeprint\<close>

text \<open>
  The flat-zero fakeprint that silence produces: no peaks, regularity 0, kurtosis 0, a score
  of at most 3 (only the high-frequency adjustment can contribute), and the verdict "not
  AI", for every length and all auxiliary features.
\<close>

lemma np_correlate_full_zeros: 
  assumes "\<forall>v \<in> set xs. v = 0"
  shows "np_correlate_full xs xs = replicate (length xs + length xs - 1) 0"
proof -
  have z: "\<And>i. i < length xs \<Longrightarrow> xs ! i = 0" using assms by simp
  have "\<forall>j \<in> set [0 ..< length xs + length xs - 1].
      sum_list (map (\<lambda>i. if length xs - 1 \<le> i + j \<and> i + j - (length xs - 1) < length xs
                 then xs ! (i + j - (length xs - 1)) * xs ! i else 0) [0 ..< length xs]) = 0"
  proof
    fix j
    have "\<forall>i \<in> set [0 ..< length xs]. (if length xs - 1 \<le> i + j \<and> i + j - (length xs - 1) < length xs
                 then xs ! (i + j - (length xs - 1)) * xs ! i else 0) = 0"
      using z by simp
    then have "map (\<lambda>i. if length xs - 1 \<le> i + j \<and> i + j - (length xs - 1) < length xs
                 then xs ! (i + j - (length xs - 1)) * xs ! i else 0) [0 ..< length xs]
               = replicate (length [0 ..< length xs]) 0"
      by (rule map_const_replicate)
    then show "sum_list (map (\<lambda>i. if length xs - 1 \<le> i + j \<and> i + j - (length xs - 1) < length xs
                 then xs ! (i + j - (length xs - 1)) * xs ! i else 0) [0 ..< length xs]) = 0"
      by (simp only: sum_list_replicate mult_zero_right)
  qed
  then have "map (\<lambda>j. sum_list (map (\<lambda>i. if length xs - 1 \<le> i + j \<and> i + j - (length xs - 1) < length xs
                 then xs ! (i + j - (length xs - 1)) * xs ! i else 0) [0 ..< length xs]))
       [0 ..< length xs + length xs - 1] = replicate (length [0 ..< length xs + length xs - 1]) 0"
    by (rule map_const_replicate)
  then show ?thesis by (simp add: np_correlate_full_def Let_def)
qed

lemma periodicity_zero:
  "periodicity (replicate n 0) 0 = 0"
proof (cases "10 < n")
  case False
  then show ?thesis by (simp add: periodicity_def)
next
  case True
  have c: "np_correlate_full (map (\<lambda>v. v - 0) (replicate n 0)) (map (\<lambda>v. v - 0) (replicate n (0::real)))
      = replicate (n + n - 1) 0"
    using np_correlate_full_zeros [of "replicate n 0"] by simp
  have "n + n - 1 = 2 * (n - 1) + 1" using True by simp
  then have "(n + n - 1) div 2 = n - 1" by (simp only: div_mult_self4)
  then have d: "(n + n - 1) - (n + n - 1) div 2 = n" using True by simp
  have e: "drop ((n + n - 1) div 2) (replicate (n + n - 1) (0::real)) = replicate n 0"
    by (simp add: d)
  have f: "map (\<lambda>v. v / (replicate n 0 ! 0 + 1 / 10 ^ 10)) (replicate n (0::real)) = replicate n 0"
    by simp
  have g: "drop 2 (take (min 50 n) (replicate n (0::real))) = replicate (min 50 n - 2) 0"
    by simp
  have h: "0 < min 50 n - 2" using True by simp
  then have "set (replicate (min 50 n - 2) (0::real)) = {0}" by simp
  then have m: "Max (set (replicate (min 50 n - 2) (0::real))) = 0" by simp
  show ?thesis
    unfolding periodicity_def Let_def c length_replicate e f g
    using True h m by simp
qed


lemma np_where_gt_zeros:
  assumes "0 \<le> t"
  shows "np_where_gt (replicate n 0) t = []"
  using assms by (auto simp: np_where_gt_def filter_empty_conv)

lemma sort_zeros: "sort (replicate n (0::real)) = replicate n 0"
  by (simp add: sorted_sort_id)

lemma np_percentile_zeros:
  assumes "0 < n" "0 \<le> q" "q \<le> 100"
  shows "np_percentile (replicate n 0) q = 0"
proof -
  define h where "h = q / 100 * real (n - 1)"
  have "0 \<le> h" using assms by (simp add: h_def)
  have "q / 100 * real (n - 1) \<le> 1 * real (n - 1)"
    using assms by (intro mult_right_mono) simp_all
  then have "h \<le> real (n - 1)" by (simp add: h_def)
  then have "nat \<lfloor>h\<rfloor> \<le> n - 1" using \<open>0 \<le> h\<close> by (simp add: nat_le_iff floor_le_iff)
  then have lo: "nat \<lfloor>h\<rfloor> < n" using assms(1) by simp
  have hi: "min (nat \<lfloor>h\<rfloor> + 1) (n - 1) < n" using assms(1) by simp
  show ?thesis
    unfolding np_percentile_def Let_def sort_zeros length_replicate h_def [symmetric]
    using lo hi by simp
qed

lemma extract_features_zeros:
  assumes "0 < n"
  shows "extract_features (replicate n 0) extra_features =
     Inr \<lparr> ft_count_high = 0, ft_count_medium = 0, ft_count_low = 0,
           ft_density_high = 0, ft_density_medium = 0, ft_density_low = 0, ft_regularity = 0,
           ft_spacing_variance = 0, ft_spacing_cv = 0, ft_mean = 0, ft_max = 0, ft_std = 0,
           ft_p75 = 0, ft_p90 = 0, ft_kurtosis = 0,
           ft_high_freq_energy = (case extra_features ''high_freq_energy'' of Some v \<Rightarrow> v | None \<Rightarrow> 0),
           ft_high_freq_ratio = (case extra_features ''high_freq_energy'' of Some v \<Rightarrow> v | None \<Rightarrow> 0)
                                 / (1 / 10 ^ 10),
           ft_periodicity = 0 \<rparr>"
proof -
  have ne: "replicate n (0::real) \<noteq> []" using assms by simp
  have w: "np_where_gt (replicate n 0) 0.5 = []" "np_where_gt (replicate n 0) 0.3 = []"
    "np_where_gt (replicate n 0) 0.1 = []"
    by (simp_all add: np_where_gt_zeros)
  have m: "nan_to_num (np_mean (replicate n 0)) = 0"
    using assms by (simp add: np_mean_def nan_to_num_def mean_def sum_list_replicate)
  have sd: "nan_to_num (np_std (replicate n 0)) = 0"
    using assms by (simp add: np_std_def nan_to_num_def mean_def std_def sum_list_replicate)
  have mx: "nan_to_num (Fin (Max (set (replicate n 0)))) = 0"
    using assms by (simp add: nan_to_num_def)
  have p: "np_percentile (replicate n 0) 75 = 0" "np_percentile (replicate n 0) 90 = 0"
    using assms by (simp_all add: np_percentile_zeros)
  have k: "kurtosis_stat (replicate n 0) 0 0 = 0"
    using assms by (simp add: kurtosis_stat_def kurtosis_raw_def np_mean_def np_divide_def
        nan_to_num_def mean_def sum_list_replicate)
  have e: "sum_list (map (\<lambda>v. v ^ 2) (replicate n (0::real))) = 0"
    by (simp add: sum_list_replicate)
  have pr: "peak_regularity [] = (0, 0, 0)" by (simp add: peak_regularity_def)
  show ?thesis
    unfolding extract_features_def Let_def w pr m sd mx p k e periodicity_zero
    using ne by simp
qed

lemma score_features_zeros:
  "sc_score (score_features \<lparr> ft_count_high = 0, ft_count_medium = 0, ft_count_low = 0,
           ft_density_high = 0, ft_density_medium = 0, ft_density_low = 0, ft_regularity = 0,
           ft_spacing_variance = 0, ft_spacing_cv = 0, ft_mean = 0, ft_max = 0, ft_std = 0,
           ft_p75 = 0, ft_p90 = 0, ft_kurtosis = 0,
           ft_high_freq_energy = hfe, ft_high_freq_ratio = ratio, ft_periodicity = 0 \<rparr>) \<le> 3"
  by (simp add: score_features_def points_peak_count_def points_peak_high_def points_mean_def
      points_max_def points_p90_def points_periodicity_def kurtosis_bonus_of_def
      hf_adjustment_of_def Let_def)

lemma silent_fakeprint_prediction:
  assumes "0 < n"
  shows "\<exists>r. compute_heuristic_prediction (replicate n 0) extra_features = Inr r
     \<and> \<not> is_ai_generated r \<and> score (details r) \<le> 3
     \<and> peak_count_high (details r) = 0 \<and> peak_count_medium (details r) = 0
     \<and> peak_count_low (details r) = 0 \<and> peak_regularity_score (details r) = 0
     \<and> fakeprint_kurtosis (details r) = 0"
proof -
  define hfe :: real where "hfe = (case extra_features ''high_freq_energy'' of Some v \<Rightarrow> v | None \<Rightarrow> 0)"
  define ft where "ft = \<lparr> ft_count_high = 0, ft_count_medium = 0, ft_count_low = 0,
           ft_density_high = 0, ft_density_medium = 0, ft_density_low = 0, ft_regularity = 0,
           ft_spacing_variance = 0, ft_spacing_cv = 0, ft_mean = 0, ft_max = 0, ft_std = 0,
           ft_p75 = 0, ft_p90 = 0, ft_kurtosis = 0,
           ft_high_freq_energy = hfe, ft_high_freq_ratio = hfe / (1 / 10 ^ 10), ft_periodicity = 0 \<rparr>"
  have f: "extract_features (replicate n 0) extra_features = Inr ft"
    using extract_features_zeros [OF assms] by (simp add: ft_def hfe_def)
  have s3: "sc_score (score_features ft) \<le> 3" unfolding ft_def by (rule score_features_zeros)
  have s0: "0 \<le> sc_score (score_features ft)" by (rule score_features_range)
  have "compute_heuristic_prediction (replicate n 0) extra_features
      = Inr (final_result ft (score_features ft))"
    by (simp add: compute_heuristic_prediction_def f)
  moreover have "\<not> is_ai_generated (final_result ft (score_features ft))"
    using s3 s0 by (simp add: final_result_def np_clip_def Let_def)
  moreover have "score (details (final_result ft (score_features ft))) \<le> 3"
    using s3 by (simp add: final_result_def Let_def)
  moreover have "peak_count_high (details (final_result ft (score_features ft))) = 0"
    "peak_count_medium (details (final_result ft (score_features ft))) = 0"
    "peak_count_low (details (final_result ft (score_features ft))) = 0"
    "peak_regularity_score (details (final_result ft (score_features ft))) = 0"
    "fakeprint_kurtosis (details (final_result ft (score_features ft))) = 0"
    by (simp_all add: final_result_def Let_def ft_def)
  ultimately show ?thesis by blast
qed

end
